theory Spec2Isabelle
  imports Main
begin

section \<open>JavaScript values\<close>

text \<open>
  A JavaScript string is a sequence of UTF-16 code units: \<open>s.length\<close> counts them and a
  regular expression without the \<open>u\<close> flag steps over them one at a time. A code unit is a
  natural number here; \<open>u16\<close> writes an ASCII literal.
\<close>

type_synonym jsstring = "nat list"

abbreviation u16 :: "string \<Rightarrow> jsstring" where
  "u16 s \<equiv> map of_char s"

text \<open>
  The values a field of \<open>req.body\<close> holds after \<open>express.json()\<close>: a JSON primitive or
  an array, or \<open>undefined\<close> for a field the body lacks. A number is kept as the text
  JavaScript prints for it (\<open>3.0\<close> is \<open>3\<close>, both zeros are \<open>0\<close>), which identifies it:
  the server never computes with a number of a request. Objects nested in a field are
  not modelled.
\<close>

datatype jsval =
    Undefined
  | Null
  | Bool bool
  | Num jsstring
  | Str jsstring
  | Arr "jsval list"

text \<open>\<open>!v\<close> is \<open>\<not> truthy v\<close>: false, 0, NaN, the empty string, null and undefined are falsy.\<close>

fun truthy :: "jsval \<Rightarrow> bool" where
  "truthy Undefined = False"
| "truthy Null = False"
| "truthy (Bool b) = b"
| "truthy (Num n) = (n \<noteq> u16 ''0'' \<and> n \<noteq> u16 ''NaN'')"
| "truthy (Str s) = (s \<noteq> [])"
| "truthy (Arr xs) = True"

text \<open>\<open>a || b\<close>\<close>

definition js_or :: "jsval \<Rightarrow> jsval \<Rightarrow> jsval" where
  "js_or a b = (if truthy a then a else b)"

text \<open>
  \<open>a === b\<close>. Two arrays are equal only when they are the same object, which two values
  parsed from different texts (or from different fields of one body) never are.
\<close>

fun strict_eq :: "jsval \<Rightarrow> jsval \<Rightarrow> bool" where
  "strict_eq Undefined Undefined = True"
| "strict_eq Null Null = True"
| "strict_eq (Bool a) (Bool b) = (a = b)"
| "strict_eq (Num a) (Num b) = (a = b \<and> a \<noteq> u16 ''NaN'')"
| "strict_eq (Str a) (Str b) = (a = b)"
| "strict_eq _ _ = False"

fun isArray :: "jsval \<Rightarrow> bool" where
  "isArray (Arr xs) = True"
| "isArray _ = False"

text \<open>
  \<open>v.length\<close> for a truthy \<open>v\<close>: a string and an array have one; on a boolean or a number
  the property is \<open>undefined\<close> (\<open>None\<close>).
\<close>

fun length_prop :: "jsval \<Rightarrow> nat option" where
  "length_prop (Str s) = Some (length s)"
| "length_prop (Arr xs) = Some (length xs)"
| "length_prop _ = None"

text \<open>\<open>n < k\<close> where \<open>n\<close> may be \<open>undefined\<close>: \<open>undefined < k\<close> is false.\<close>

definition less_than :: "nat option \<Rightarrow> nat \<Rightarrow> bool" where
  "less_than n k = (case n of None \<Rightarrow> False | Some m \<Rightarrow> m < k)"

fun join :: "jsstring \<Rightarrow> jsstring list \<Rightarrow> jsstring" where
  "join sep [] = []"
| "join sep [s] = s"
| "join sep (s # t # ss) = s @ sep @ join sep (t # ss)"

text \<open>\<open>String(v)\<close>, the conversion \<open>RegExp.prototype.test\<close> and \<open>parseInt\<close> apply first.\<close>

fun toString :: "jsval \<Rightarrow> jsstring" where
  "toString Undefined = u16 ''undefined''"
| "toString Null = u16 ''null''"
| "toString (Bool b) = (if b then u16 ''true'' else u16 ''false'')"
| "toString (Num n) = n"
| "toString (Str s) = s"
| "toString (Arr xs) =
     join (u16 '','')
       (map (\<lambda>x. if x = Undefined \<or> x = Null then [] else toString x) xs)"

text \<open>
  What \<open>JSON.parse\<close> gives back for the text \<open>JSON.stringify\<close> writes for a value: a
  number that is not finite (\<open>1e400\<close> in a request is \<open>Infinity\<close>) is written as \<open>null\<close>,
  and so is \<open>undefined\<close> inside an array. A property whose value is \<open>undefined\<close> is left
  out of the text and reads as \<open>undefined\<close> again. Every other value comes back as it was.
\<close>

definition nonFinite :: "jsstring \<Rightarrow> bool" where
  "nonFinite n = (n = u16 ''Infinity'' \<or> n = u16 ''-Infinity'' \<or> n = u16 ''NaN'')"

fun toJSON :: "jsval \<Rightarrow> jsval" where
  "toJSON (Num n) = (if nonFinite n then Null else Num n)"
| "toJSON (Arr xs) = Arr (map (\<lambda>x. if x = Undefined then Null else toJSON x) xs)"
| "toJSON Undefined = Undefined"
| "toJSON Null = Null"
| "toJSON (Bool b) = Bool b"
| "toJSON (Str s) = Str s"

text \<open>The code units \<open>\s\<close> matches, which are also the ones \<open>parseInt\<close> skips.\<close>

definition isWhiteSpace :: "nat \<Rightarrow> bool" where
  "isWhiteSpace c =
     (c \<in> {9, 10, 11, 12, 13, 32, 160, 5760, 8232, 8233, 8239, 8287, 12288, 65279}
      \<or> (8192 \<le> c \<and> c \<le> 8202))"

subsection \<open>parseInt\<close>

definition digitValue :: "nat \<Rightarrow> nat" where
  "digitValue c =
     (if 48 \<le> c \<and> c \<le> 57 then c - 48
      else if 97 \<le> c \<and> c \<le> 122 then c - 87
      else if 65 \<le> c \<and> c \<le> 90 then c - 55
      else 36)"

text \<open>
  \<open>parseInt(v)\<close> with no radix: skip leading white space, take a sign, take \<open>0x\<close> as
  radix 16, read the longest run of digits; \<open>None\<close> is NaN. The result is an unbounded
  integer (JavaScript rounds beyond 2^53).
\<close>

definition parseInt :: "jsval \<Rightarrow> int option" where
  "parseInt v =
     (let s0 = dropWhile isWhiteSpace (toString v);
          neg = (s0 \<noteq> [] \<and> hd s0 = 45);
          s1 = (if s0 \<noteq> [] \<and> (hd s0 = 45 \<or> hd s0 = 43) then tl s0 else s0);
          hex = (2 \<le> length s1 \<and> hd s1 = 48 \<and> (s1 ! 1 = 120 \<or> s1 ! 1 = 88));
          r = (if hex then 16 else 10);
          s2 = (if hex then drop 2 s1 else s1);
          z = takeWhile (\<lambda>c. digitValue c < r) s2;
          n = foldl (\<lambda>a c. a * int r + int (digitValue c)) 0 z
      in if z = [] then None else Some (if neg then - n else n))"

section \<open>The e-mail pattern\<close>

text \<open>
  Regular expressions over code units, with what the pattern of \<open>validateEmail\<close> needs:
  a literal, a negated class \<open>[^...]\<close> whose members are literals or \<open>\s\<close>, sequence and
  repetition. A pattern is matched with Brzozowski derivatives.
\<close>

datatype member = Ch nat | WhiteSpace

fun member_has :: "member \<Rightarrow> nat \<Rightarrow> bool" where
  "member_has (Ch a) c = (a = c)"
| "member_has WhiteSpace c = isWhiteSpace c"

datatype regex =
    Fail
  | Eps
  | Lit nat
  | NoneOf "member list"
  | Cat regex regex
  | Alt regex regex
  | Star regex

text \<open>\<open>r+\<close>\<close>

definition OneOrMore :: "regex \<Rightarrow> regex" where
  "OneOrMore r = Cat r (Star r)"

fun nullable :: "regex \<Rightarrow> bool" where
  "nullable Fail = False"
| "nullable Eps = True"
| "nullable (Lit a) = False"
| "nullable (NoneOf ms) = False"
| "nullable (Cat r s) = (nullable r \<and> nullable s)"
| "nullable (Alt r s) = (nullable r \<or> nullable s)"
| "nullable (Star r) = True"

fun deriv :: "nat \<Rightarrow> regex \<Rightarrow> regex" where
  "deriv c Fail = Fail"
| "deriv c Eps = Fail"
| "deriv c (Lit a) = (if a = c then Eps else Fail)"
| "deriv c (NoneOf ms) = (if list_ex (\<lambda>m. member_has m c) ms then Fail else Eps)"
| "deriv c (Cat r s) =
     (if nullable r then Alt (Cat (deriv c r) s) (deriv c s) else Cat (deriv c r) s)"
| "deriv c (Alt r s) = Alt (deriv c r) (deriv c s)"
| "deriv c (Star r) = Cat (deriv c r) (Star r)"

text \<open>\<open>/^r$/.test(s)\<close> for a string \<open>s\<close>: the whole of \<open>s\<close> matches \<open>r\<close>.\<close>

fun test :: "regex \<Rightarrow> jsstring \<Rightarrow> bool" where
  "test r [] = nullable r"
| "test r (c # s) = test (deriv c r) s"

text \<open>\<open>/^[^\s@]+@[^\s@]+\.[^\s@]+$/\<close>\<close>

definition emailRegex :: regex where
  "emailRegex =
     Cat (OneOrMore (NoneOf [WhiteSpace, Ch 64]))
       (Cat (Lit 64)
         (Cat (OneOrMore (NoneOf [WhiteSpace, Ch 64]))
           (Cat (Lit 46) (OneOrMore (NoneOf [WhiteSpace, Ch 64])))))"

definition validateEmail :: "jsval \<Rightarrow> bool" where
  "validateEmail email = test emailRegex (toString email)"

text \<open>
  What a pattern means, to compare the matcher with: the set of strings it denotes.
\<close>

inductive_set rep :: "jsstring set \<Rightarrow> jsstring set" for A :: "jsstring set" where
  rep_nil: "[] \<in> rep A"
| rep_app: "u \<in> A \<Longrightarrow> v \<in> rep A \<Longrightarrow> u @ v \<in> rep A"

fun lang :: "regex \<Rightarrow> jsstring set" where
  "lang Fail = {}"
| "lang Eps = {[]}"
| "lang (Lit a) = {[a]}"
| "lang (NoneOf ms) = {[c] | c. \<not> list_ex (\<lambda>m. member_has m c) ms}"
| "lang (Cat r s) = {u @ v | u v. u \<in> lang r \<and> v \<in> lang s}"
| "lang (Alt r s) = lang r \<union> lang s"
| "lang (Star r) = rep (lang r)"

text \<open>A code unit the class \<open>[^\s@]\<close> accepts.\<close>

definition plain :: "nat \<Rightarrow> bool" where
  "plain c = (\<not> isWhiteSpace c \<and> c \<noteq> 64)"

text \<open>
  The pattern in words: a local part, \<open>@\<close>, a domain, a dot and a last part, each
  non-empty and free of white space and of \<open>@\<close>.
\<close>

definition email_shape :: "jsstring \<Rightarrow> bool" where
  "email_shape s \<longleftrightarrow>
     (\<exists>l d t. s = l @ [64] @ d @ [46] @ t \<and> l \<noteq> [] \<and> d \<noteq> [] \<and> t \<noteq> [] \<and>
        (\<forall>c \<in> set (l @ d @ t). plain c))"

section \<open>The record store\<close>

text \<open>
  One entry of \<open>users.json\<close>, with the thirteen properties \<open>/api/auth/signup\<close> writes, in
  that order. The identifier is an integer (\<open>id\<close> in the source); every other property
  holds a value.
\<close>

record user =
  user_id :: int
  firstName :: jsval
  lastName :: jsval
  email :: jsval
  phone :: jsval
  password :: jsval
  preferences :: jsval
  dietaryRestrictions :: jsval
  cuisineTypes :: jsval
  priceRange :: jsval
  minRating :: jsval
  hasPreferences :: jsval
  createdAt :: jsval

record store =
  users :: "user list"
  nextId :: int

text \<open>
  \<open>data.nextId += 1\<close>: the sum \<open>n + 1\<close> of JavaScript, for an integer \<open>n\<close> that is one of
  its numbers (a double). The sum is exact from \<open>-2^53\<close> up to \<open>2^53 - 1\<close>. Between \<open>2^53\<close>
  and \<open>2^54\<close>, and between their negatives, the doubles are the even integers: \<open>n + 1\<close>
  lies half way between \<open>n\<close> and \<open>n + 2\<close> and is rounded to the one of them whose
  significand is even, the multiple of 4, which is \<open>n\<close> itself at \<open>2^53\<close>. Farther out the
  doubles are at least 4 apart and the sum is \<open>n\<close>.
\<close>

definition add_one :: "int \<Rightarrow> int" where
  "add_one n =
     (if - (2 ^ 53) \<le> n \<and> n < 2 ^ 53 then n + 1
      else if - (2 ^ 54) \<le> n \<and> n < 2 ^ 54 then (if n mod 4 = 0 then n else n + 2)
      else n)"

text \<open>The record and the store that come back from the text \<open>JSON.stringify\<close> writes.\<close>

definition toJSON_user :: "user \<Rightarrow> user" where
  "toJSON_user u =
     \<lparr>user_id = user_id u,
      firstName = toJSON (firstName u),
      lastName = toJSON (lastName u),
      email = toJSON (email u),
      phone = toJSON (phone u),
      password = toJSON (password u),
      preferences = toJSON (preferences u),
      dietaryRestrictions = toJSON (dietaryRestrictions u),
      cuisineTypes = toJSON (cuisineTypes u),
      priceRange = toJSON (priceRange u),
      minRating = toJSON (minRating u),
      hasPreferences = toJSON (hasPreferences u),
      createdAt = toJSON (createdAt u)\<rparr>"

definition toJSON_store :: "store \<Rightarrow> store" where
  "toJSON_store data = \<lparr>users = map toJSON_user (users data), nextId = nextId data\<rparr>"

text \<open>
  The file \<open>users.json\<close>: missing, holding a text \<open>JSON.parse\<close> rejects, or holding the
  text \<open>JSON.stringify\<close> writes for a store (\<open>Parses S\<close>), which \<open>JSON.parse\<close> accepts.
  The server writes the file with \<open>JSON.stringify\<close> and in no other way. A file made by
  hand whose text has a number that is not a double (\<open>1e400\<close>, or \<open>2^53 + 1\<close>) is not
  covered. Reading and writing the file itself are taken to work: \<open>writeUsers\<close> catches a
  failing write and only logs it, which is not modelled.
\<close>

datatype usersFile = Absent | Unparseable jsstring | Parses store

definition initialData :: store where
  "initialData = \<lparr>users = [], nextId = 1\<rparr>"

definition initializeUsersFile :: "usersFile \<Rightarrow> usersFile" where
  "initializeUsersFile f = (case f of Absent \<Rightarrow> Parses initialData | _ \<Rightarrow> f)"

text \<open>
  \<open>JSON.parse(fs.readFileSync(...))\<close>, with the fallback of the \<open>catch\<close>. What is read is
  what the text of the file gives back: where \<open>JSON.stringify\<close> wrote \<open>null\<close> for a value,
  \<open>null\<close> is read.
\<close>

definition readUsers :: "usersFile \<Rightarrow> store" where
  "readUsers f =
     (case f of Parses data \<Rightarrow> toJSON_store data | _ \<Rightarrow> \<lparr>users = [], nextId = 1\<rparr>)"

text \<open>
  \<open>fs.writeFileSync(usersFilePath, JSON.stringify(data, null, 2))\<close>: the file then holds
  the text of \<open>data\<close>, kept here as the store that text gives back.
\<close>

definition writeUsers :: "store \<Rightarrow> usersFile \<Rightarrow> usersFile" where
  "writeUsers data f = Parses (toJSON_store data)"

section \<open>Password hashing\<close>

text \<open>
  The two functions of bcryptjs the server calls, on strings. They are parameters: the
  library is not part of the repository, and nothing below depends on what they compute.
  Both throw when an argument is not a string, which is \<open>None\<close> in \<open>hashPassword\<close> and
  \<open>verifyPassword\<close>.
\<close>

record bcrypt =
  hashSync :: "jsstring \<Rightarrow> jsstring \<Rightarrow> jsstring"
  compareSync :: "jsstring \<Rightarrow> jsstring \<Rightarrow> bool"

text \<open>
  What a request takes from outside the program: the salt \<open>bcrypt.genSaltSync(10)\<close> draws
  and the text of \<open>new Date().toISOString()\<close>.
\<close>

record env =
  salt :: jsstring
  now :: jsstring

definition hashPassword :: "bcrypt \<Rightarrow> env \<Rightarrow> jsval \<Rightarrow> jsstring option" where
  "hashPassword B E pw =
     (case pw of Str p \<Rightarrow> Some (hashSync B p (salt E)) | _ \<Rightarrow> None)"

definition verifyPassword :: "bcrypt \<Rightarrow> jsval \<Rightarrow> jsval \<Rightarrow> bool option" where
  "verifyPassword B pw hash =
     (case pw of
        Str p \<Rightarrow> (case hash of Str h \<Rightarrow> Some (compareSync B p h) | _ \<Rightarrow> None)
      | _ \<Rightarrow> None)"

section \<open>Requests and responses\<close>

text \<open>
  \<open>req.body\<close> maps property names to values; reading a property it lacks gives
  \<open>undefined\<close>, which is what the destructuring at the head of each handler does.
\<close>

type_synonym body = "string \<rightharpoonup> jsval"

definition fieldOf :: "body \<Rightarrow> string \<Rightarrow> jsval" where
  "fieldOf b k = (case b k of None \<Rightarrow> Undefined | Some v \<Rightarrow> v)"

text \<open>
  The body of an answer: objects with named properties, whose leaves are values and
  integers (the identifiers).
\<close>

datatype json = Atom jsval | Integer int | Object "(string \<times> json) list"

text \<open>
  A handler answers with a status and a body, or a call of a library throws and Express
  answers for it (\<open>Uncaught\<close>).
\<close>

datatype outcome = Reply nat json | Uncaught

text \<open>
  \<open>res.status(st).json(j)\<close> sends the text \<open>JSON.stringify\<close> writes for \<open>j\<close>: the answer
  carries every value in the form that text has. (\<open>Atom Undefined\<close> stands for a property
  the text leaves out.)
\<close>

fun sent :: "json \<Rightarrow> json" where
  "sent (Atom v) = Atom (toJSON v)"
| "sent (Integer n) = Integer n"
| "sent (Object ps) = Object (map (\<lambda>p. (fst p, sent (snd p))) ps)"

definition res_json :: "nat \<Rightarrow> json \<Rightarrow> outcome" where
  "res_json st j = Reply st (sent j)"

text \<open>\<open>res.status(st).json({ success: false, message: m })\<close>\<close>

definition failure :: "nat \<Rightarrow> jsstring \<Rightarrow> outcome" where
  "failure st m =
     res_json st (Object [(''success'', Atom (Bool False)), (''message'', Atom (Str m))])"

text \<open>The messages of the source, as code units.\<close>

definition msg_InvalidName :: jsstring where
  "msg_InvalidName =
     [86, 117, 105, 32, 108, 242, 110, 103, 32, 110, 104, 7853, 112, 32, 104, 7885, 32,
      118, 224, 32, 116, 234, 110]"

definition msg_InvalidEmail :: jsstring where
  "msg_InvalidEmail =
     [69, 109, 97, 105, 108, 32, 107, 104, 244, 110, 103, 32, 104, 7907, 112, 32, 108,
      7879]"

definition msg_WeakPassword :: jsstring where
  "msg_WeakPassword =
     [77, 7853, 116, 32, 107, 104, 7849, 117, 32, 112, 104, 7843, 105, 32, 99, 243, 32,
      237, 116, 32, 110, 104, 7845, 116, 32, 56, 32, 107, 253, 32, 116, 7921]"

definition msg_PasswordMismatch :: jsstring where
  "msg_PasswordMismatch =
     [77, 7853, 116, 32, 107, 104, 7849, 117, 32, 107, 104, 244, 110, 103, 32, 107, 104,
      7899, 112]"

definition msg_EmailTaken :: jsstring where
  "msg_EmailTaken =
     [69, 109, 97, 105, 108, 32, 110, 224, 121, 32, 273, 227, 32, 273, 432, 7907, 99, 32,
      273, 259, 110, 103, 32, 107, 253]"

definition msg_AccountCreated :: jsstring where
  "msg_AccountCreated =
     [84, 224, 105, 32, 107, 104, 111, 7843, 110, 32, 273, 432, 7907, 99, 32, 116, 7841,
      111, 32, 116, 104, 224, 110, 104, 32, 99, 244, 110, 103, 33]"

definition msg_MissingCredentials :: jsstring where
  "msg_MissingCredentials =
     [86, 117, 105, 32, 108, 242, 110, 103, 32, 110, 104, 7853, 112, 32, 101, 109, 97,
      105, 108, 32, 118, 224, 32, 109, 7853, 116, 32, 107, 104, 7849, 117]"

definition msg_InvalidCredentials :: jsstring where
  "msg_InvalidCredentials =
     [69, 109, 97, 105, 108, 32, 104, 111, 7863, 99, 32, 109, 7853, 116, 32, 107, 104,
      7849, 117, 32, 107, 104, 244, 110, 103, 32, 273, 250, 110, 103]"

definition msg_LoggedIn :: jsstring where
  "msg_LoggedIn =
     [272, 259, 110, 103, 32, 110, 104, 7853, 112, 32, 116, 104, 224, 110, 104, 32, 99,
      244, 110, 103, 33]"

definition msg_MissingUserId :: jsstring where
  "msg_MissingUserId = [84, 104, 105, 7871, 117, 32, 117, 115, 101, 114, 73, 100]"

definition msg_UserNotFound :: jsstring where
  "msg_UserNotFound =
     [85, 115, 101, 114, 32, 107, 104, 244, 110, 103, 32, 116, 236, 109, 32, 116, 104,
      7845, 121]"

definition msg_PreferencesUpdated :: jsstring where
  "msg_PreferencesUpdated =
     [80, 114, 101, 102, 101, 114, 101, 110, 99, 101, 115, 32, 273, 227, 32, 273, 432,
      7907, 99, 32, 99, 7853, 112, 32, 110, 104, 7853, 116, 33]"

text \<open>A stored record as the object it is, its properties in order.\<close>

definition userObject :: "user \<Rightarrow> (string \<times> json) list" where
  "userObject u =
     [(''id'', Integer (user_id u)),
      (''firstName'', Atom (firstName u)),
      (''lastName'', Atom (lastName u)),
      (''email'', Atom (email u)),
      (''phone'', Atom (phone u)),
      (''password'', Atom (password u)),
      (''preferences'', Atom (preferences u)),
      (''dietaryRestrictions'', Atom (dietaryRestrictions u)),
      (''cuisineTypes'', Atom (cuisineTypes u)),
      (''priceRange'', Atom (priceRange u)),
      (''minRating'', Atom (minRating u)),
      (''hasPreferences'', Atom (hasPreferences u)),
      (''createdAt'', Atom (createdAt u))]"

text \<open>\<open>xs.findIndex(p)\<close>, where \<open>None\<close> is \<open>-1\<close>.\<close>

fun findIndex :: "('a \<Rightarrow> bool) \<Rightarrow> 'a list \<Rightarrow> nat option" where
  "findIndex p [] = None"
| "findIndex p (x # xs) = (if p x then Some 0 else map_option Suc (findIndex p xs))"

section \<open>The account service\<close>

text \<open>
  Each handler takes the file and returns its answer with the file it leaves.
  \<open>createAccount\<close> is \<open>POST /api/auth/signup\<close>.
\<close>

definition createAccount :: "bcrypt \<Rightarrow> env \<Rightarrow> body \<Rightarrow> usersFile \<Rightarrow> outcome \<times> usersFile" where
  "createAccount B E b f =
     (if \<not> truthy (fieldOf b ''firstName'') \<or> \<not> truthy (fieldOf b ''lastName'')
      then (failure 400 msg_InvalidName, f)
      else if \<not> truthy (fieldOf b ''email'') \<or> \<not> validateEmail (fieldOf b ''email'')
      then (failure 400 msg_InvalidEmail, f)
      else if \<not> truthy (fieldOf b ''password'')
              \<or> less_than (length_prop (fieldOf b ''password'')) 8
      then (failure 400 msg_WeakPassword, f)
      else if \<not> strict_eq (fieldOf b ''password'') (fieldOf b ''confirmPassword'')
      then (failure 400 msg_PasswordMismatch, f)
      else
        let data = readUsers f in
        if list_ex (\<lambda>u. strict_eq (email u) (fieldOf b ''email'')) (users data)
        then (failure 400 msg_EmailTaken, f)
        else
          (case hashPassword B E (fieldOf b ''password'') of
             None \<Rightarrow> (Uncaught, f)
           | Some h \<Rightarrow>
               let newUser =
                     \<lparr>user_id = nextId data,
                      firstName = fieldOf b ''firstName'',
                      lastName = fieldOf b ''lastName'',
                      email = fieldOf b ''email'',
                      phone = js_or (fieldOf b ''phone'') (Str []),
                      password = Str h,
                      preferences = Arr [],
                      dietaryRestrictions = Arr [],
                      cuisineTypes = Arr [],
                      priceRange = Str [],
                      minRating = Num (u16 ''3''),
                      hasPreferences = Bool False,
                      createdAt = Str (now E)\<rparr>;
                   data' = \<lparr>users = users data @ [newUser], nextId = add_one (nextId data)\<rparr>
               in (res_json 201
                     (Object
                        [(''success'', Atom (Bool True)),
                         (''message'', Atom (Str msg_AccountCreated)),
                         (''userId'', Integer (user_id newUser))]),
                   writeUsers data' f)))"

text \<open>\<open>POST /api/auth/login\<close>\<close>

definition login :: "bcrypt \<Rightarrow> body \<Rightarrow> usersFile \<Rightarrow> outcome \<times> usersFile" where
  "login B b f =
     (if \<not> truthy (fieldOf b ''email'') \<or> \<not> truthy (fieldOf b ''password'')
      then (failure 400 msg_MissingCredentials, f)
      else
        let data = readUsers f in
        (case find (\<lambda>u. strict_eq (email u) (fieldOf b ''email'')) (users data) of
           None \<Rightarrow> (failure 401 msg_InvalidCredentials, f)
         | Some u \<Rightarrow>
             (case verifyPassword B (fieldOf b ''password'') (password u) of
                None \<Rightarrow> (Uncaught, f)
              | Some False \<Rightarrow> (failure 401 msg_InvalidCredentials, f)
              | Some True \<Rightarrow>
                  (res_json 200
                     (Object
                        [(''success'', Atom (Bool True)),
                         (''message'', Atom (Str msg_LoggedIn)),
                         (''user'',
                          Object
                            [(''id'', Integer (user_id u)),
                             (''firstName'', Atom (firstName u)),
                             (''lastName'', Atom (lastName u)),
                             (''email'', Atom (email u)),
                             (''hasPreferences'',
                              Atom (js_or (hasPreferences u) (Bool False)))])]),
                   f))))"

text \<open>\<open>POST /api/auth/preferences\<close>\<close>

definition updatePreferences :: "body \<Rightarrow> usersFile \<Rightarrow> outcome \<times> usersFile" where
  "updatePreferences b f =
     (if \<not> truthy (fieldOf b ''userId'') then (failure 400 msg_MissingUserId, f)
      else
        let data = readUsers f in
        (case findIndex (\<lambda>u. Some (user_id u) = parseInt (fieldOf b ''userId'')) (users data) of
           None \<Rightarrow> (failure 404 msg_UserNotFound, f)
         | Some i \<Rightarrow>
             let u = (users data ! i)
                   \<lparr>preferences :=
                      (if isArray (fieldOf b ''preferences'') then fieldOf b ''preferences''
                       else Arr []),
                    dietaryRestrictions :=
                      (if isArray (fieldOf b ''dietaryRestrictions'')
                       then fieldOf b ''dietaryRestrictions'' else Arr []),
                    cuisineTypes :=
                      (if isArray (fieldOf b ''cuisineTypes'') then fieldOf b ''cuisineTypes''
                       else Arr []),
                    priceRange := js_or (fieldOf b ''priceRange'') (Str []),
                    minRating := js_or (fieldOf b ''minRating'') (Num (u16 ''3'')),
                    hasPreferences := Bool True\<rparr>;
                 data' = data\<lparr>users := (users data)[i := u]\<rparr>
             in (res_json 200
                   (Object
                      [(''success'', Atom (Bool True)),
                       (''message'', Atom (Str msg_PreferencesUpdated)),
                       (''user'', Object (userObject (users data' ! i)))]),
                 writeUsers data' f)))"

text \<open>\<open>GET /api/users/:id\<close>; the route parameter is a string.\<close>

definition getUser :: "jsstring \<Rightarrow> usersFile \<Rightarrow> outcome \<times> usersFile" where
  "getUser ident f =
     (let data = readUsers f in
      case find (\<lambda>u. Some (user_id u) = parseInt (Str ident)) (users data) of
        None \<Rightarrow> (failure 404 msg_UserNotFound, f)
      | Some u \<Rightarrow>
          (res_json 200
             (Object
                [(''success'', Atom (Bool True)),
                 (''user'', Object (filter (\<lambda>p. fst p \<noteq> ''password'') (userObject u)))]),
           f))"

text \<open>An answer reports success when its body has \<open>success: true\<close>.\<close>

definition succeeded :: "outcome \<Rightarrow> bool" where
  "succeeded out =
     (case out of
        Reply st (Object ps) \<Rightarrow> map_of ps ''success'' = Some (Atom (Bool True))
      | _ \<Rightarrow> False)"

text \<open>The names of the properties of an answer, at every depth.\<close>

fun keys :: "json \<Rightarrow> string set" where
  "keys (Atom v) = {}"
| "keys (Integer n) = {}"
| "keys (Object ps) = fst ` set ps \<union> (\<Union>p \<in> set ps. keys (snd p))"

fun names :: "outcome \<Rightarrow> string set" where
  "names (Reply st j) = keys j"
| "names Uncaught = {}"


section \<open>The validation rules in words\<close>

text \<open>
  The five rules of account creation as the specification words them, for comparison
  with \<open>createAccount\<close>. A field is textual when it is a string or is missing; its text
  is then the string, or the empty string.
\<close>

datatype signup_error = InvalidName | InvalidEmail | WeakPassword | PasswordMismatch | EmailTaken

fun message :: "signup_error \<Rightarrow> jsstring" where
  "message InvalidName = msg_InvalidName"
| "message InvalidEmail = msg_InvalidEmail"
| "message WeakPassword = msg_WeakPassword"
| "message PasswordMismatch = msg_PasswordMismatch"
| "message EmailTaken = msg_EmailTaken"

fun textual :: "jsval \<Rightarrow> bool" where
  "textual Undefined = True"
| "textual Null = True"
| "textual (Str s) = True"
| "textual _ = False"

fun text_of :: "jsval \<Rightarrow> jsstring" where
  "text_of (Str s) = s"
| "text_of _ = []"

definition first_failing :: "body \<Rightarrow> store \<Rightarrow> signup_error option" where
  "first_failing b S =
     (if text_of (fieldOf b ''firstName'') = [] \<or> text_of (fieldOf b ''lastName'') = []
      then Some InvalidName
      else if text_of (fieldOf b ''email'') = [] \<or> \<not> email_shape (text_of (fieldOf b ''email''))
      then Some InvalidEmail
      else if length (text_of (fieldOf b ''password'')) < 8 then Some WeakPassword
      else if fieldOf b ''confirmPassword'' \<noteq> fieldOf b ''password'' then Some PasswordMismatch
      else if fieldOf b ''email'' \<in> email ` set (users S) then Some EmailTaken
      else None)"

text \<open>\<open>s.trim()\<close>, which the specification's first rule speaks of and the source never calls.\<close>

definition trim :: "jsstring \<Rightarrow> jsstring" where
  "trim s = rev (dropWhile isWhiteSpace (rev (dropWhile isWhiteSpace s)))"

section \<open>A scenario\<close>

text \<open>
  The requests of the specification's concrete scenario. To run a handler on them the
  library's functions must be given: \<open>sample_bcrypt\<close> is one choice of them, made only so
  that terms evaluate. It is not bcrypt, and no theorem is about it.
\<close>

definition sample_bcrypt :: bcrypt where
  "sample_bcrypt = \<lparr>hashSync = (\<lambda>p s. s @ p), compareSync = (\<lambda>p h. h = u16 ''$'' @ p)\<rparr>"

definition sample_env :: env where
  "sample_env = \<lparr>salt = u16 ''$'', now = u16 ''2026-01-01T00:00:00.000Z''\<rparr>"

definition ana_signup :: body where
  "ana_signup =
     map_of
       [(''firstName'', Str (u16 ''Ana'')),
        (''lastName'', Str (u16 ''Lee'')),
        (''email'', Str (u16 ''ana@x.com'')),
        (''phone'', Str []),
        (''password'', Str (u16 ''pass1234'')),
        (''confirmPassword'', Str (u16 ''pass1234''))]"

definition ana_login :: body where
  "ana_login =
     map_of [(''email'', Str (u16 ''ana@x.com'')), (''password'', Str (u16 ''pass1234''))]"

definition ana_preferences :: body where
  "ana_preferences =
     map_of
       [(''userId'', Num (u16 ''1'')),
        (''preferences'', Arr [Str (u16 ''vegan'')]),
        (''dietaryRestrictions'', Arr [Str (u16 ''gluten-free'')]),
        (''cuisineTypes'', Arr [Str (u16 ''italian'')]),
        (''priceRange'', Str (u16 ''$$'')),
        (''minRating'', Num (u16 ''4''))]"

text \<open>The record the first request creates, and the file after it.\<close>

definition ana :: user where
  "ana =
     \<lparr>user_id = 1,
      firstName = Str (u16 ''Ana''),
      lastName = Str (u16 ''Lee''),
      email = Str (u16 ''ana@x.com''),
      phone = Str [],
      password = Str (u16 ''$pass1234''),
      preferences = Arr [],
      dietaryRestrictions = Arr [],
      cuisineTypes = Arr [],
      priceRange = Str [],
      minRating = Num (u16 ''3''),
      hasPreferences = Bool False,
      createdAt = Str (u16 ''2026-01-01T00:00:00.000Z'')\<rparr>"

definition ana_file :: usersFile where
  "ana_file = Parses \<lparr>users = [ana], nextId = 2\<rparr>"

text \<open>
  Two logins with the number \<open>12345678\<close> as password, one for the registered e-mail and
  one for an e-mail nobody registered.
\<close>

definition number_for_ana :: body where
  "number_for_ana =
     map_of [(''email'', Str (u16 ''ana@x.com'')), (''password'', Num (u16 ''12345678''))]"

definition number_for_bob :: body where
  "number_for_bob =
     map_of [(''email'', Str (u16 ''bob@x.com'')), (''password'', Num (u16 ''12345678''))]"

section \<open>Notions the theorems use\<close>

text \<open>The record after the six assignments of \<open>updatePreferences\<close>.\<close>

definition updated :: "body \<Rightarrow> user \<Rightarrow> user" where
  "updated b u =
     u\<lparr>preferences :=
         (if isArray (fieldOf b ''preferences'') then fieldOf b ''preferences'' else Arr []),
       dietaryRestrictions :=
         (if isArray (fieldOf b ''dietaryRestrictions'') then fieldOf b ''dietaryRestrictions''
          else Arr []),
       cuisineTypes :=
         (if isArray (fieldOf b ''cuisineTypes'') then fieldOf b ''cuisineTypes'' else Arr []),
       priceRange := (if truthy (fieldOf b ''priceRange'') then fieldOf b ''priceRange'' else Str []),
       minRating :=
         (if truthy (fieldOf b ''minRating'') then fieldOf b ''minRating'' else Num (u16 ''3'')),
       hasPreferences := Bool True\<rparr>"


section \<open>The matcher decides the pattern\<close>

lemma nullable_lang: "nullable r \<longleftrightarrow> [] \<in> lang r"
  by (induction r) (auto intro: rep_nil)

lemma rep_cons_split:
  assumes "w \<in> rep A" and "w = c # s"
  shows "\<exists>u v. s = u @ v \<and> c # u \<in> A \<and> v \<in> rep A"
  using assms
proof (induction arbitrary: s rule: rep.induct)
  case rep_nil
  then show ?case by simp
next
  case (rep_app u v)
  show ?case
  proof (cases u)
    case Nil
    with rep_app show ?thesis by simp
  next
    case (Cons a u')
    with rep_app.prems have "a = c" and "s = u' @ v" by simp_all
    with Cons rep_app.hyps(1,2) show ?thesis by blast
  qed
qed

lemma rep_cons: "c # s \<in> rep A \<longleftrightarrow> (\<exists>u v. s = u @ v \<and> c # u \<in> A \<and> v \<in> rep A)"
proof
  assume "c # s \<in> rep A"
  then show "\<exists>u v. s = u @ v \<and> c # u \<in> A \<and> v \<in> rep A"
    by (rule rep_cons_split) simp
next
  assume "\<exists>u v. s = u @ v \<and> c # u \<in> A \<and> v \<in> rep A"
  then obtain u v where "s = u @ v" "c # u \<in> A" "v \<in> rep A" by blast
  then show "c # s \<in> rep A"
    using rep_app [of "c # u" A v] by simp
qed

lemma lang_deriv: "s \<in> lang (deriv c r) \<longleftrightarrow> c # s \<in> lang r"
proof (induction r arbitrary: s)
  case (Cat r1 r2)
  show ?case
  proof
    assume "s \<in> lang (deriv c (Cat r1 r2))"
    then consider (l) u v where "s = u @ v" "c # u \<in> lang r1" "v \<in> lang r2"
      | (r) "nullable r1" "c # s \<in> lang r2"
      using Cat by (auto split: if_splits)
    then show "c # s \<in> lang (Cat r1 r2)"
    proof cases
      case l
      then have "c # s = (c # u) @ v" by simp
      with l show ?thesis by (metis (mono_tags, lifting) lang.simps(5) mem_Collect_eq)
    next
      case r
      then have "[] \<in> lang r1" by (simp add: nullable_lang)
      with r have "c # s = [] @ (c # s) \<and> [] \<in> lang r1 \<and> c # s \<in> lang r2" by simp
      then show ?thesis unfolding lang.simps by blast
    qed
  next
    assume "c # s \<in> lang (Cat r1 r2)"
    then obtain u v where uv: "c # s = u @ v" "u \<in> lang r1" "v \<in> lang r2" by auto
    show "s \<in> lang (deriv c (Cat r1 r2))"
    proof (cases u)
      case Nil
      with uv have "nullable r1" "s \<in> lang (deriv c r2)"
        by (simp_all add: nullable_lang Cat)
      then show ?thesis by simp
    next
      case (Cons a u')
      with uv(1) have eq: "a = c" "s = u' @ v" by simp_all
      with uv(2) Cons have "u' \<in> lang (deriv c r1)" by (simp add: Cat.IH(1))
      with eq uv(3) show ?thesis by auto
    qed
  qed
next
  case (Star r)
  show ?case
    by (auto simp: rep_cons Star)
qed auto

lemma test_lang: "test r s \<longleftrightarrow> s \<in> lang r"
  by (induction s arbitrary: r) (simp_all add: nullable_lang lang_deriv)


lemma lang_NoneOf_plain: "lang (NoneOf [WhiteSpace, Ch 64]) = {[c] | c. plain c}"
  by (auto simp: plain_def)

lemma rep_plain: "s \<in> rep {[c] | c. plain c} \<longleftrightarrow> (\<forall>c \<in> set s. plain c)"
proof
  assume "s \<in> rep {[c] | c. plain c}"
  then show "\<forall>c \<in> set s. plain c"
    by (induction rule: rep.induct) auto
next
  assume "\<forall>c \<in> set s. plain c"
  then show "s \<in> rep {[c] | c. plain c}"
  proof (induction s)
    case Nil
    show ?case by (rule rep_nil)
  next
    case (Cons c s)
    then have "[c] \<in> {[c] | c. plain c}" and "s \<in> rep {[c] | c. plain c}" by simp_all
    then have "[c] @ s \<in> rep {[c] | c. plain c}" by (rule rep_app)
    then show ?case by simp
  qed
qed

lemma lang_OneOrMore_plain:
  "s \<in> lang (OneOrMore (NoneOf [WhiteSpace, Ch 64])) \<longleftrightarrow> s \<noteq> [] \<and> (\<forall>c \<in> set s. plain c)"
proof -
  have "s \<in> lang (OneOrMore (NoneOf [WhiteSpace, Ch 64])) \<longleftrightarrow>
      (\<exists>c v. s = c # v \<and> plain c \<and> v \<in> rep {[c] | c. plain c})"
  proof
    assume "s \<in> lang (OneOrMore (NoneOf [WhiteSpace, Ch 64]))"
    then show "\<exists>c v. s = c # v \<and> plain c \<and> v \<in> rep {[c] | c. plain c}"
      unfolding OneOrMore_def lang.simps(5) lang.simps(7) lang_NoneOf_plain by auto
  next
    assume "\<exists>c v. s = c # v \<and> plain c \<and> v \<in> rep {[c] | c. plain c}"
    then obtain c v where "s = [c] @ v" "plain c" "v \<in> rep {[c] | c. plain c}" by auto
    then show "s \<in> lang (OneOrMore (NoneOf [WhiteSpace, Ch 64]))"
      unfolding OneOrMore_def lang.simps(5) lang.simps(7) lang_NoneOf_plain by blast
  qed
  also have "\<dots> \<longleftrightarrow> s \<noteq> [] \<and> (\<forall>c \<in> set s. plain c)"
    by (cases s) (simp_all add: rep_plain)
  finally show ?thesis .
qed

lemma lang_emailRegex:
  "s \<in> lang emailRegex \<longleftrightarrow>
     (\<exists>l d t. s = l @ [64] @ d @ [46] @ t \<and>
        l \<in> lang (OneOrMore (NoneOf [WhiteSpace, Ch 64])) \<and>
        d \<in> lang (OneOrMore (NoneOf [WhiteSpace, Ch 64])) \<and>
        t \<in> lang (OneOrMore (NoneOf [WhiteSpace, Ch 64])))"
  unfolding emailRegex_def lang.simps(3) lang.simps(5) by blast

lemma validateEmail_Str: "validateEmail (Str s) \<longleftrightarrow> email_shape s"
  unfolding validateEmail_def toString.simps test_lang lang_emailRegex email_shape_def
    lang_OneOrMore_plain
  by (simp add: ball_Un) blast

section \<open>Loading the store and creating accounts\<close>

declare res_json_def [simp]

lemma failure_Reply:
  "failure st m =
     Reply st (Object [(''success'', Atom (Bool False)), (''message'', Atom (Str m))])"
  by (simp add: failure_def)

lemmas scenario_defs =
  fieldOf_def validateEmail_def emailRegex_def OneOrMore_def isWhiteSpace_def less_than_def
  readUsers_def writeUsers_def initialData_def hashPassword_def verifyPassword_def js_or_def
  toJSON_store_def toJSON_user_def nonFinite_def add_one_def
  sample_bcrypt_def sample_env_def ana_signup_def ana_login_def ana_preferences_def
  ana_def ana_file_def failure_Reply succeeded_def Let_def parseInt_def digitValue_def
  userObject_def initializeUsersFile_def

lemma toJSON_Undefined: "toJSON v = Undefined \<longleftrightarrow> v = Undefined"
  by (cases v) simp_all

lemma toJSON_Str: "toJSON v = Str s \<longleftrightarrow> v = Str s"
  by (cases v) simp_all

lemma toJSON_again: "toJSON (toJSON v) = toJSON v"
  by (induction v) (simp_all add: toJSON_Undefined)

lemma toJSON_user_again: "toJSON_user (toJSON_user u) = toJSON_user u"
  by (simp add: toJSON_user_def toJSON_again)

lemma toJSON_store_again: "toJSON_store (toJSON_store S) = toJSON_store S"
  by (simp add: toJSON_store_def toJSON_user_again)

lemma readUsers_Parses: "readUsers (Parses S) = toJSON_store S"
  by (simp add: readUsers_def)

text \<open>What \<open>readUsers\<close> returns is in the form of the text, records and all.\<close>

lemma readUsers_json: "toJSON_store (readUsers f) = readUsers f"
proof (cases f)
  case (Parses S)
  then show ?thesis by (simp add: readUsers_def toJSON_store_again)
qed (simp_all add: readUsers_def toJSON_store_def)

lemma readUsers_users_json: "map toJSON_user (users (readUsers f)) = users (readUsers f)"
  using readUsers_json [of f] by (simp add: toJSON_store_def) (metis store.select_convs(1))

lemma readUsers_user_json:
  assumes "i < length (users (readUsers f))"
  shows "toJSON_user (users (readUsers f) ! i) = users (readUsers f) ! i"
proof -
  have "map toJSON_user (users (readUsers f)) ! i = users (readUsers f) ! i"
    by (simp only: readUsers_users_json)
  with assms show ?thesis by simp
qed

lemma readUsers_member_json:
  assumes "u \<in> set (users (readUsers f))"
  shows "toJSON_user u = u"
proof -
  from assms obtain i where "i < length (users (readUsers f))" and "users (readUsers f) ! i = u"
    by (auto simp: in_set_conv_nth)
  with readUsers_user_json [of i f] show ?thesis by simp
qed

lemma find_member: "find p xs = Some x \<Longrightarrow> x \<in> set xs"
  by (auto simp: find_Some_iff)

lemma toJSON_store_append:
  "toJSON_store \<lparr>users = users (readUsers f) @ [u], nextId = n\<rparr> =
     \<lparr>users = users (readUsers f) @ [toJSON_user u], nextId = n\<rparr>"
  by (simp add: toJSON_store_def readUsers_users_json)


lemma json_fields:
  assumes "toJSON_user u = u"
  shows "toJSON (firstName u) = firstName u" and "toJSON (lastName u) = lastName u"
    and "toJSON (email u) = email u" and "toJSON (phone u) = phone u"
    and "toJSON (password u) = password u" and "toJSON (preferences u) = preferences u"
    and "toJSON (dietaryRestrictions u) = dietaryRestrictions u"
    and "toJSON (cuisineTypes u) = cuisineTypes u" and "toJSON (priceRange u) = priceRange u"
    and "toJSON (minRating u) = minRating u" and "toJSON (hasPreferences u) = hasPreferences u"
    and "toJSON (createdAt u) = createdAt u"
proof -
  have "toJSON (firstName u) = firstName (toJSON_user u)"
    "toJSON (lastName u) = lastName (toJSON_user u)"
    "toJSON (email u) = email (toJSON_user u)"
    "toJSON (phone u) = phone (toJSON_user u)"
    "toJSON (password u) = password (toJSON_user u)"
    "toJSON (preferences u) = preferences (toJSON_user u)"
    "toJSON (dietaryRestrictions u) = dietaryRestrictions (toJSON_user u)"
    "toJSON (cuisineTypes u) = cuisineTypes (toJSON_user u)"
    "toJSON (priceRange u) = priceRange (toJSON_user u)"
    "toJSON (minRating u) = minRating (toJSON_user u)"
    "toJSON (hasPreferences u) = hasPreferences (toJSON_user u)"
    "toJSON (createdAt u) = createdAt (toJSON_user u)"
    by (simp_all add: toJSON_user_def)
  with assms show "toJSON (firstName u) = firstName u" and "toJSON (lastName u) = lastName u"
    and "toJSON (email u) = email u" and "toJSON (phone u) = phone u"
    and "toJSON (password u) = password u" and "toJSON (preferences u) = preferences u"
    and "toJSON (dietaryRestrictions u) = dietaryRestrictions u"
    and "toJSON (cuisineTypes u) = cuisineTypes u" and "toJSON (priceRange u) = priceRange u"
    and "toJSON (minRating u) = minRating u" and "toJSON (hasPreferences u) = hasPreferences u"
    and "toJSON (createdAt u) = createdAt u"
    by simp_all
qed

lemma sent_userObject: "sent (Object (userObject u)) = Object (userObject (toJSON_user u))"
  by (simp add: userObject_def toJSON_user_def)

lemma not_succeeded_failure: "\<not> succeeded (failure st m)"
  by (simp add: succeeded_def failure_Reply)

lemma not_succeeded_Uncaught: "\<not> succeeded Uncaught"
  by (simp add: succeeded_def)

lemma truthy_textual: "textual v \<Longrightarrow> truthy v \<longleftrightarrow> text_of v \<noteq> []"
  by (cases v) simp_all

lemma textual_Str: "textual v \<Longrightarrow> text_of v \<noteq> [] \<Longrightarrow> v = Str (text_of v)"
  by (cases v) simp_all

lemma strict_eq_Str: "strict_eq (Str s) v \<longleftrightarrow> v = Str s"
  by (cases v) auto

lemma strict_eq_Str2: "strict_eq v (Str s) \<longleftrightarrow> v = Str s"
  by (cases v) auto

lemma email_taken_iff:
  "list_ex (\<lambda>u. strict_eq (email u) (Str e)) us \<longleftrightarrow> Str e \<in> email ` set us"
  by (force simp: list_ex_iff strict_eq_Str2)

lemma messages_distinct:
  "distinct (map message [InvalidName, InvalidEmail, WeakPassword, PasswordMismatch, EmailTaken])"
  by (simp add: msg_InvalidName_def msg_InvalidEmail_def msg_WeakPassword_def
      msg_PasswordMismatch_def msg_EmailTaken_def)


text \<open>
  C1, as amended. When \<open>firstName\<close>, \<open>lastName\<close>, \<open>email\<close> and \<open>password\<close> are each
  text or missing, \<open>createAccount\<close> answers with the error of the first rule that fails,
  in this order: (1) both names are non-empty, with no trimming; (2) the e-mail is
  non-empty and has the shape of the pattern; (3) the password has at least 8 code units;
  (4) \<open>confirmPassword\<close> equals the password; (5) no record of the store has this e-mail.
  The five messages are pairwise different, and the call succeeds exactly when no rule
  fails.
\<close>

theorem createAccount_rules:
  assumes "textual (fieldOf b ''firstName'')" and "textual (fieldOf b ''lastName'')"
    and "textual (fieldOf b ''email'')" and "textual (fieldOf b ''password'')"
  shows "fst (createAccount B E b f) =
      (case first_failing b (readUsers f) of
         Some e \<Rightarrow> failure 400 (message e)
       | None \<Rightarrow>
           Reply 201
             (Object
                [(''success'', Atom (Bool True)),
                 (''message'', Atom (Str msg_AccountCreated)),
                 (''userId'', Integer (nextId (readUsers f)))])) \<and>
    (succeeded (fst (createAccount B E b f)) \<longleftrightarrow> first_failing b (readUsers f) = None) \<and>
    distinct (map message [InvalidName, InvalidEmail, WeakPassword, PasswordMismatch, EmailTaken])"
proof -
  let ?fn = "fieldOf b ''firstName''" and ?ln = "fieldOf b ''lastName''"
  let ?em = "fieldOf b ''email''" and ?pw = "fieldOf b ''password''"
  let ?ok = "Reply 201
             (Object
                [(''success'', Atom (Bool True)),
                 (''message'', Atom (Str msg_AccountCreated)),
                 (''userId'', Integer (nextId (readUsers f)))])"
  have eq: "fst (createAccount B E b f) =
      (case first_failing b (readUsers f) of Some e \<Rightarrow> failure 400 (message e) | None \<Rightarrow> ?ok)"
  proof (cases "text_of ?fn = [] \<or> text_of ?ln = []")
    case True
    then show ?thesis
      using assms(1,2) by (auto simp: createAccount_def first_failing_def truthy_textual)
  next
    case names: False
    show ?thesis
    proof (cases "text_of ?em = [] \<or> \<not> email_shape (text_of ?em)")
      case True
      then have "\<not> truthy ?em \<or> \<not> validateEmail ?em"
        using assms(3) textual_Str [of ?em] validateEmail_Str [of "text_of ?em"]
        by (auto simp: truthy_textual)
      with names True show ?thesis
        using assms(1,2) by (simp add: createAccount_def first_failing_def truthy_textual)
    next
      case mail: False
      then have em: "?em = Str (text_of ?em)" using assms(3) textual_Str by blast
      have emv: "truthy ?em \<and> validateEmail ?em"
        using mail assms(3) validateEmail_Str [of "text_of ?em"] em
        by (auto simp: truthy_textual)
      show ?thesis
      proof (cases "length (text_of ?pw) < 8")
        case True
        then have "\<not> truthy ?pw \<or> less_than (length_prop ?pw) 8"
          using assms(4) by (cases ?pw) (simp_all add: less_than_def)
        with names mail True emv show ?thesis
          using assms(1,2) by (simp add: createAccount_def first_failing_def truthy_textual)
      next
        case long: False
        then have "text_of ?pw \<noteq> []" by auto
        then have pw: "?pw = Str (text_of ?pw)" using assms(4) by (rule textual_Str [rotated])
        have pwv: "truthy ?pw \<and> \<not> less_than (length_prop ?pw) 8"
          using long assms(4) by (cases ?pw) (auto simp: less_than_def)
        have same: "strict_eq ?pw (fieldOf b ''confirmPassword'') \<longleftrightarrow>
            fieldOf b ''confirmPassword'' = ?pw"
          by (subst (1 2) pw) (rule strict_eq_Str)
        have taken: "list_ex (\<lambda>u. strict_eq (email u) ?em) (users (readUsers f)) \<longleftrightarrow>
            ?em \<in> email ` set (users (readUsers f))"
          by (subst (1 2) em) (rule email_taken_iff)
        have h: "hashPassword B E ?pw = Some (hashSync B (text_of ?pw) (salt E))"
          by (subst pw) (simp add: hashPassword_def)
        from names mail long emv pwv show ?thesis
          using assms(1,2)
          by (simp add: createAccount_def first_failing_def truthy_textual same taken h Let_def)
      qed
    qed
  qed
  have "succeeded ?ok" by (simp add: succeeded_def)
  with eq have "succeeded (fst (createAccount B E b f)) \<longleftrightarrow> first_failing b (readUsers f) = None"
    by (cases "first_failing b (readUsers f)") (simp_all add: not_succeeded_failure)
  with eq messages_distinct show ?thesis by blast
qed

section \<open>What each handler does to the file\<close>

lemma findIndex_Some: "findIndex p xs = Some i \<Longrightarrow> i < length xs \<and> p (xs ! i)"
proof (induction xs arbitrary: i)
  case Nil
  then show ?case by simp
next
  case (Cons x xs)
  show ?case
  proof (cases "p x")
    case True
    with Cons.prems show ?thesis by simp
  next
    case False
    with Cons.prems obtain j where "findIndex p xs = Some j" and "i = Suc j" by auto
    with Cons.IH show ?thesis by simp
  qed
qed

lemma findIndex_first: "findIndex p xs = Some i \<Longrightarrow> j < i \<Longrightarrow> \<not> p (xs ! j)"
proof (induction xs arbitrary: i j)
  case Nil
  then show ?case by simp
next
  case (Cons x xs)
  show ?case
  proof (cases "p x")
    case True
    with Cons.prems show ?thesis by simp
  next
    case False
    with Cons.prems obtain k where k: "findIndex p xs = Some k" "i = Suc k" by auto
    show ?thesis
    proof (cases j)
      case 0
      with False show ?thesis by simp
    next
      case (Suc j')
      with Cons.prems(2) k have "j' < k" by simp
      with Cons.IH [OF k(1)] Suc show ?thesis by simp
    qed
  qed
qed

lemma findIndex_None: "findIndex p xs = None \<longleftrightarrow> (\<forall>x \<in> set xs. \<not> p x)"
  by (induction xs) auto

lemma findIndex_exists: "x \<in> set xs \<Longrightarrow> p x \<Longrightarrow> \<exists>i. findIndex p xs = Some i"
  using findIndex_None [of p xs] by (cases "findIndex p xs") auto

text \<open>What a call of each handler can do to the file.\<close>

lemma createAccount_cases:
  "(\<not> succeeded (fst (createAccount B E b f)) \<and> snd (createAccount B E b f) = f) \<or>
   (\<exists>h. hashPassword B E (fieldOf b ''password'') = Some h \<and>
      \<not> list_ex (\<lambda>u. strict_eq (email u) (fieldOf b ''email'')) (users (readUsers f)) \<and>
      createAccount B E b f =
      (Reply 201
         (Object
            [(''success'', Atom (Bool True)),
             (''message'', Atom (Str msg_AccountCreated)),
             (''userId'', Integer (nextId (readUsers f)))]),
       Parses
         \<lparr>users = users (readUsers f) @
            [\<lparr>user_id = nextId (readUsers f),
              firstName = toJSON (fieldOf b ''firstName''),
              lastName = toJSON (fieldOf b ''lastName''),
              email = toJSON (fieldOf b ''email''),
              phone = toJSON (if truthy (fieldOf b ''phone'') then fieldOf b ''phone'' else Str []),
              password = Str h,
              preferences = Arr [],
              dietaryRestrictions = Arr [],
              cuisineTypes = Arr [],
              priceRange = Str [],
              minRating = Num (u16 ''3''),
              hasPreferences = Bool False,
              createdAt = Str (now E)\<rparr>],
          nextId = add_one (nextId (readUsers f))\<rparr>))"
  by (auto simp: createAccount_def not_succeeded_failure not_succeeded_Uncaught Let_def
      writeUsers_def js_or_def toJSON_store_append toJSON_user_def nonFinite_def
      split: if_splits option.splits)

lemma login_file: "snd (login B b f) = f"
  by (simp add: login_def Let_def split: option.splits bool.splits)


lemma toJSON_store_update:
  assumes "i < length (users (readUsers f))"
  shows "toJSON_store ((readUsers f)\<lparr>users := (users (readUsers f))[i := u]\<rparr>) =
    (readUsers f)\<lparr>users := (users (readUsers f))[i := toJSON_user u]\<rparr>"
proof -
  have "map toJSON_user ((users (readUsers f))[i := u]) =
      (map toJSON_user (users (readUsers f)))[i := toJSON_user u]"
    by (rule map_update)
  then show ?thesis by (simp add: toJSON_store_def readUsers_users_json)
qed

lemma updatePreferences_found:
  assumes "truthy (fieldOf b ''userId'')"
    and "findIndex (\<lambda>u. Some (user_id u) = parseInt (fieldOf b ''userId'')) (users (readUsers f))
      = Some i"
  shows "updatePreferences b f =
      (Reply 200
         (Object
            [(''success'', Atom (Bool True)),
             (''message'', Atom (Str msg_PreferencesUpdated)),
             (''user'', Object (userObject (toJSON_user (updated b (users (readUsers f) ! i)))))]),
       Parses ((readUsers f)\<lparr>users :=
         (users (readUsers f))[i := toJSON_user (updated b (users (readUsers f) ! i))]\<rparr>))"
proof -
  let ?old = "users (readUsers f) ! i"
  have len: "i < length (users (readUsers f))" using assms(2) by (simp add: findIndex_Some)
  have raw: "updatePreferences b f =
      (res_json 200
         (Object
            [(''success'', Atom (Bool True)),
             (''message'', Atom (Str msg_PreferencesUpdated)),
             (''user'', Object (userObject (updated b ?old)))]),
       writeUsers ((readUsers f)\<lparr>users := (users (readUsers f))[i := updated b ?old]\<rparr>) f)"
    using len assms by (simp add: updatePreferences_def Let_def js_or_def updated_def)
  have answer: "res_json 200
      (Object
         [(''success'', Atom (Bool True)),
          (''message'', Atom (Str msg_PreferencesUpdated)),
          (''user'', Object (userObject (updated b ?old)))]) =
    Reply 200
      (Object
         [(''success'', Atom (Bool True)),
          (''message'', Atom (Str msg_PreferencesUpdated)),
          (''user'', Object (userObject (toJSON_user (updated b ?old))))])"
    using sent_userObject [of "updated b ?old"] by (simp add: res_json_def)
  have written: "writeUsers ((readUsers f)\<lparr>users := (users (readUsers f))[i := updated b ?old]\<rparr>) f =
      Parses ((readUsers f)\<lparr>users := (users (readUsers f))[i := toJSON_user (updated b ?old)]\<rparr>)"
    using toJSON_store_update [OF len] by (simp add: writeUsers_def)
  show ?thesis unfolding raw answer written ..
qed


text \<open>The record as it is stored after the update, when it was in the form of the text.\<close>

lemma stored_update:
  assumes "toJSON_user u = u"
  shows "toJSON_user (updated b u) =
    u\<lparr>preferences :=
        toJSON (if isArray (fieldOf b ''preferences'') then fieldOf b ''preferences'' else Arr []),
      dietaryRestrictions :=
        toJSON (if isArray (fieldOf b ''dietaryRestrictions'') then fieldOf b ''dietaryRestrictions''
                else Arr []),
      cuisineTypes :=
        toJSON (if isArray (fieldOf b ''cuisineTypes'') then fieldOf b ''cuisineTypes'' else Arr []),
      priceRange :=
        toJSON (if truthy (fieldOf b ''priceRange'') then fieldOf b ''priceRange'' else Str []),
      minRating :=
        toJSON (if truthy (fieldOf b ''minRating'') then fieldOf b ''minRating''
                else Num (u16 ''3'')),
      hasPreferences := Bool True\<rparr>"
  using json_fields [OF assms] by (cases u) (simp add: toJSON_user_def updated_def)

section \<open>Preferences and login\<close>

lemma existing_index:
  assumes "parseInt v = Some n" and "n \<in> user_id ` set us"
  shows "\<exists>i. findIndex (\<lambda>u. Some (user_id u) = parseInt v) us = Some i \<and> i < length us \<and>
    user_id (us ! i) = n \<and> (\<forall>j<i. user_id (us ! j) \<noteq> n)"
proof -
  from assms obtain u where "u \<in> set us" and "Some (user_id u) = parseInt v" by auto
  then obtain i where i: "findIndex (\<lambda>u. Some (user_id u) = parseInt v) us = Some i"
    using findIndex_exists [of u us "\<lambda>u. Some (user_id u) = parseInt v"] by blast
  have "\<forall>j<i. user_id (us ! j) \<noteq> n"
    using findIndex_first [OF i] assms(1) by auto
  with findIndex_Some [OF i] assms(1) show ?thesis using i by auto
qed


text \<open>
  C9. Such a call of \<open>updatePreferences\<close> changes nothing else: the record keeps its
  \<open>id\<close>, \<open>firstName\<close>, \<open>lastName\<close>, \<open>email\<close>, \<open>phone\<close>, \<open>password\<close> and
  \<open>createdAt\<close>, every other record is the same, there are as many records as before,
  and \<open>nextId\<close> is the same.
\<close>

theorem updatePreferences_frame:
  assumes "truthy (fieldOf b ''userId'')"
    and "parseInt (fieldOf b ''userId'') = Some n"
    and "n \<in> user_id ` set (users (readUsers f))"
  shows "\<exists>i S'. i < length (users (readUsers f)) \<and> user_id (users (readUsers f) ! i) = n \<and>
    snd (updatePreferences b f) = Parses S' \<and>
    nextId S' = nextId (readUsers f) \<and>
    length (users S') = length (users (readUsers f)) \<and>
    (\<forall>j < length (users (readUsers f)). j \<noteq> i \<longrightarrow> users S' ! j = users (readUsers f) ! j) \<and>
    user_id (users S' ! i) = user_id (users (readUsers f) ! i) \<and>
    firstName (users S' ! i) = firstName (users (readUsers f) ! i) \<and>
    lastName (users S' ! i) = lastName (users (readUsers f) ! i) \<and>
    email (users S' ! i) = email (users (readUsers f) ! i) \<and>
    phone (users S' ! i) = phone (users (readUsers f) ! i) \<and>
    password (users S' ! i) = password (users (readUsers f) ! i) \<and>
    createdAt (users S' ! i) = createdAt (users (readUsers f) ! i)"
proof -
  from existing_index [OF assms(2,3)] obtain i
    where i: "findIndex (\<lambda>u. Some (user_id u) = parseInt (fieldOf b ''userId''))
        (users (readUsers f)) = Some i"
      and len: "i < length (users (readUsers f))"
      and n: "user_id (users (readUsers f) ! i) = n"
    by blast
  let ?u = "toJSON_user (updated b (users (readUsers f) ! i))"
  let ?S = "(readUsers f)\<lparr>users := (users (readUsers f))[i := ?u]\<rparr>"
  have kept: "user_id ?u = user_id (users (readUsers f) ! i)"
    "firstName ?u = firstName (users (readUsers f) ! i)"
    "lastName ?u = lastName (users (readUsers f) ! i)"
    "email ?u = email (users (readUsers f) ! i)"
    "phone ?u = phone (users (readUsers f) ! i)"
    "password ?u = password (users (readUsers f) ! i)"
    "createdAt ?u = createdAt (users (readUsers f) ! i)"
    by (simp_all add: stored_update [OF readUsers_user_json [OF len]])
  have "snd (updatePreferences b f) = Parses ?S"
    by (simp add: updatePreferences_found [OF assms(1) i])
  then show ?thesis
    using len n kept by (intro exI [of _ i] exI [of _ ?S]) simp
qed

text \<open>
  When the password is one the library compares and rejects, a login for an e-mail of
  the store gets the same answer as a login for an e-mail that is not there: status 401
  with the message of invalid credentials.
\<close>

lemma login_rejected_alike:
  assumes "truthy (fieldOf b1 ''email'')" and "truthy (fieldOf b1 ''password'')"
    and "find (\<lambda>u. strict_eq (email u) (fieldOf b1 ''email'')) (users (readUsers f1)) = Some u"
    and "verifyPassword B1 (fieldOf b1 ''password'') (password u) = Some False"
    and "truthy (fieldOf b2 ''email'')" and "truthy (fieldOf b2 ''password'')"
    and "find (\<lambda>u. strict_eq (email u) (fieldOf b2 ''email'')) (users (readUsers f2)) = None"
  shows "fst (login B1 b1 f1) = failure 401 msg_InvalidCredentials \<and>
    fst (login B2 b2 f2) = failure 401 msg_InvalidCredentials \<and>
    fst (login B1 b1 f1) = fst (login B2 b2 f2)"
  using assms by (simp add: login_def Let_def)

text \<open>
  A password that is truthy and not a string is never compared: for an e-mail of the
  store the library throws, for any other e-mail the answer is 401.
\<close>

lemma login_throws_for_known:
  assumes "truthy (fieldOf b ''email'')" and "truthy (fieldOf b ''password'')"
    and "\<forall>p. fieldOf b ''password'' \<noteq> Str p"
    and "find (\<lambda>u. strict_eq (email u) (fieldOf b ''email'')) (users (readUsers f)) = Some u"
  shows "login B b f = (Uncaught, f)"
proof -
  have "verifyPassword B (fieldOf b ''password'') (password u) = None"
    using assms(3) by (cases "fieldOf b ''password''") (simp_all add: verifyPassword_def)
  with assms show ?thesis by (simp add: login_def Let_def)
qed

lemma login_401_for_unknown:
  assumes "truthy (fieldOf b ''email'')" and "truthy (fieldOf b ''password'')"
    and "find (\<lambda>u. strict_eq (email u) (fieldOf b ''email'')) (users (readUsers f)) = None"
  shows "login B b f = (failure 401 msg_InvalidCredentials, f)"
  using assms by (simp add: login_def Let_def)

lemma names_failure: "names (failure st m) = {''success'', ''message''}"
  by (auto simp: failure_Reply)

lemma login_cases:
  "fst (login B b f) = Uncaught \<or> (\<exists>st m. fst (login B b f) = failure st m) \<or>
   (\<exists>u. find (\<lambda>u. strict_eq (email u) (fieldOf b ''email'')) (users (readUsers f)) = Some u \<and>
      verifyPassword B (fieldOf b ''password'') (password u) = Some True \<and>
      fst (login B b f) =
        Reply 200
          (Object
             [(''success'', Atom (Bool True)),
              (''message'', Atom (Str msg_LoggedIn)),
              (''user'',
               Object
                 [(''id'', Integer (user_id u)),
                  (''firstName'', Atom (firstName u)),
                  (''lastName'', Atom (lastName u)),
                  (''email'', Atom (email u)),
                  (''hasPreferences'',
                   Atom (if truthy (hasPreferences u) then hasPreferences u else Bool False))])]))"
proof (cases "\<not> truthy (fieldOf b ''email'') \<or> \<not> truthy (fieldOf b ''password'')")
  case True
  then show ?thesis by (auto simp: login_def)
next
  case ok: False
  show ?thesis
  proof (cases "find (\<lambda>u. strict_eq (email u) (fieldOf b ''email'')) (users (readUsers f))")
    case None
    with ok show ?thesis by (auto simp: login_def Let_def)
  next
    case (Some u)
    consider "verifyPassword B (fieldOf b ''password'') (password u) = None"
      | "verifyPassword B (fieldOf b ''password'') (password u) = Some False"
      | "verifyPassword B (fieldOf b ''password'') (password u) = Some True"
      by (cases "verifyPassword B (fieldOf b ''password'') (password u)") auto
    then show ?thesis
    proof cases
      case 1
      with ok Some show ?thesis by (simp add: login_def Let_def)
    next
      case 2
      with ok Some have "fst (login B b f) = failure 401 msg_InvalidCredentials"
        by (simp add: login_def Let_def)
      then show ?thesis by blast
    next
      case 3
      with ok Some have "fst (login B b f) =
        Reply 200
          (Object
             [(''success'', Atom (Bool True)),
              (''message'', Atom (Str msg_LoggedIn)),
              (''user'',
               Object
                 [(''id'', Integer (user_id u)),
                  (''firstName'', Atom (firstName u)),
                  (''lastName'', Atom (lastName u)),
                  (''email'', Atom (email u)),
                  (''hasPreferences'',
                   Atom (if truthy (hasPreferences u) then hasPreferences u else Bool False))])])"
        using json_fields [OF readUsers_member_json [OF find_member [OF Some]]]
        by (simp add: login_def Let_def js_or_def)
      with Some 3 show ?thesis by blast
    qed
  qed
qed

lemma getUser_cases:
  "fst (getUser ident f) = failure 404 msg_UserNotFound \<or>
   (\<exists>u. find (\<lambda>u. Some (user_id u) = parseInt (Str ident)) (users (readUsers f)) = Some u \<and>
      fst (getUser ident f) =
        Reply 200
          (Object
             [(''success'', Atom (Bool True)),
              (''user'',
               Object
                 [(''id'', Integer (user_id u)),
                  (''firstName'', Atom (firstName u)),
                  (''lastName'', Atom (lastName u)),
                  (''email'', Atom (email u)),
                  (''phone'', Atom (phone u)),
                  (''preferences'', Atom (preferences u)),
                  (''dietaryRestrictions'', Atom (dietaryRestrictions u)),
                  (''cuisineTypes'', Atom (cuisineTypes u)),
                  (''priceRange'', Atom (priceRange u)),
                  (''minRating'', Atom (minRating u)),
                  (''hasPreferences'', Atom (hasPreferences u)),
                  (''createdAt'', Atom (createdAt u))])]))"
proof (cases "find (\<lambda>u. Some (user_id u) = parseInt (Str ident)) (users (readUsers f))")
  case None
  then show ?thesis by (simp add: getUser_def Let_def)
next
  case (Some u)
  then show ?thesis
    using json_fields [OF readUsers_member_json [OF find_member [OF Some]]]
    by (simp add: getUser_def Let_def userObject_def)
qed

section \<open>Answers, failed signups and the invariant\<close>

text \<open>
  C5. No answer of \<open>login\<close> or \<open>getUser\<close> has a property named \<open>password\<close> or
  \<open>passwordHash\<close>, at any depth. A successful login carries, as \<open>user\<close>, exactly
  \<open>id\<close>, \<open>firstName\<close>, \<open>lastName\<close>, \<open>email\<close> and \<open>hasPreferences\<close> of the record found;
  a successful \<open>getUser\<close> carries every property of the record found but \<open>password\<close>.
\<close>

theorem responses_hide_password:
  "''password'' \<notin> names (fst (login B b f)) \<and> ''passwordHash'' \<notin> names (fst (login B b f)) \<and>
   ''password'' \<notin> names (fst (getUser ident f)) \<and>
   ''passwordHash'' \<notin> names (fst (getUser ident f)) \<and>
   (succeeded (fst (login B b f)) \<longrightarrow>
      (\<exists>u. find (\<lambda>u. strict_eq (email u) (fieldOf b ''email'')) (users (readUsers f)) = Some u \<and>
         fst (login B b f) =
           Reply 200
             (Object
                [(''success'', Atom (Bool True)),
                 (''message'', Atom (Str msg_LoggedIn)),
                 (''user'',
                  Object
                    [(''id'', Integer (user_id u)),
                     (''firstName'', Atom (firstName u)),
                     (''lastName'', Atom (lastName u)),
                     (''email'', Atom (email u)),
                     (''hasPreferences'',
                      Atom (if truthy (hasPreferences u) then hasPreferences u
                            else Bool False))])]))) \<and>
   (succeeded (fst (getUser ident f)) \<longrightarrow>
      (\<exists>u. find (\<lambda>u. Some (user_id u) = parseInt (Str ident)) (users (readUsers f)) = Some u \<and>
         fst (getUser ident f) =
           Reply 200
             (Object
                [(''success'', Atom (Bool True)),
                 (''user'',
                  Object
                    [(''id'', Integer (user_id u)),
                     (''firstName'', Atom (firstName u)),
                     (''lastName'', Atom (lastName u)),
                     (''email'', Atom (email u)),
                     (''phone'', Atom (phone u)),
                     (''preferences'', Atom (preferences u)),
                     (''dietaryRestrictions'', Atom (dietaryRestrictions u)),
                     (''cuisineTypes'', Atom (cuisineTypes u)),
                     (''priceRange'', Atom (priceRange u)),
                     (''minRating'', Atom (minRating u)),
                     (''hasPreferences'', Atom (hasPreferences u)),
                     (''createdAt'', Atom (createdAt u))])])))"
proof -
  have l: "''password'' \<notin> names (fst (login B b f)) \<and>
      ''passwordHash'' \<notin> names (fst (login B b f))"
    using login_cases [of B b f] by (auto simp: names_failure)
  have g: "''password'' \<notin> names (fst (getUser ident f)) \<and>
      ''passwordHash'' \<notin> names (fst (getUser ident f))"
    using getUser_cases [of ident f] by (auto simp: names_failure)
  have ls: "succeeded (fst (login B b f)) \<longrightarrow>
      (\<exists>u. find (\<lambda>u. strict_eq (email u) (fieldOf b ''email'')) (users (readUsers f)) = Some u \<and>
         fst (login B b f) =
           Reply 200
             (Object
                [(''success'', Atom (Bool True)),
                 (''message'', Atom (Str msg_LoggedIn)),
                 (''user'',
                  Object
                    [(''id'', Integer (user_id u)),
                     (''firstName'', Atom (firstName u)),
                     (''lastName'', Atom (lastName u)),
                     (''email'', Atom (email u)),
                     (''hasPreferences'',
                      Atom (if truthy (hasPreferences u) then hasPreferences u
                            else Bool False))])]))"
    using login_cases [of B b f]
    by (auto simp: not_succeeded_failure not_succeeded_Uncaught)
  have gs: "succeeded (fst (getUser ident f)) \<longrightarrow>
      (\<exists>u. find (\<lambda>u. Some (user_id u) = parseInt (Str ident)) (users (readUsers f)) = Some u \<and>
         fst (getUser ident f) =
           Reply 200
             (Object
                [(''success'', Atom (Bool True)),
                 (''user'',
                  Object
                    [(''id'', Integer (user_id u)),
                     (''firstName'', Atom (firstName u)),
                     (''lastName'', Atom (lastName u)),
                     (''email'', Atom (email u)),
                     (''phone'', Atom (phone u)),
                     (''preferences'', Atom (preferences u)),
                     (''dietaryRestrictions'', Atom (dietaryRestrictions u)),
                     (''cuisineTypes'', Atom (cuisineTypes u)),
                     (''priceRange'', Atom (priceRange u)),
                     (''minRating'', Atom (minRating u)),
                     (''hasPreferences'', Atom (hasPreferences u)),
                     (''createdAt'', Atom (createdAt u))])]))"
    using getUser_cases [of ident f] by (auto simp: not_succeeded_failure)
  from l g ls gs show ?thesis by blast
qed

lemma createAccount_appends:
  "(\<not> succeeded (fst (createAccount B E b f)) \<and> snd (createAccount B E b f) = f) \<or>
   (succeeded (fst (createAccount B E b f)) \<and>
    \<not> list_ex (\<lambda>u. strict_eq (email u) (fieldOf b ''email'')) (users (readUsers f)) \<and>
    (\<exists>u. user_id u = nextId (readUsers f) \<and> email u = toJSON (fieldOf b ''email'') \<and>
       toJSON_user u = u \<and>
       snd (createAccount B E b f) =
         Parses \<lparr>users = users (readUsers f) @ [u], nextId = add_one (nextId (readUsers f))\<rparr>))"
proof -
  from createAccount_cases [of B E b f] show ?thesis
  proof
    assume "\<not> succeeded (fst (createAccount B E b f)) \<and> snd (createAccount B E b f) = f"
    then show ?thesis ..
  next
    assume "\<exists>h. hashPassword B E (fieldOf b ''password'') = Some h \<and>
      \<not> list_ex (\<lambda>u. strict_eq (email u) (fieldOf b ''email'')) (users (readUsers f)) \<and>
      createAccount B E b f =
      (Reply 201
         (Object
            [(''success'', Atom (Bool True)),
             (''message'', Atom (Str msg_AccountCreated)),
             (''userId'', Integer (nextId (readUsers f)))]),
       Parses
         \<lparr>users = users (readUsers f) @
            [\<lparr>user_id = nextId (readUsers f),
              firstName = toJSON (fieldOf b ''firstName''),
              lastName = toJSON (fieldOf b ''lastName''),
              email = toJSON (fieldOf b ''email''),
              phone = toJSON (if truthy (fieldOf b ''phone'') then fieldOf b ''phone'' else Str []),
              password = Str h,
              preferences = Arr [],
              dietaryRestrictions = Arr [],
              cuisineTypes = Arr [],
              priceRange = Str [],
              minRating = Num (u16 ''3''),
              hasPreferences = Bool False,
              createdAt = Str (now E)\<rparr>],
          nextId = add_one (nextId (readUsers f))\<rparr>)"
    then obtain h where fresh:
        "\<not> list_ex (\<lambda>u. strict_eq (email u) (fieldOf b ''email'')) (users (readUsers f))"
      and eq: "createAccount B E b f =
      (Reply 201
         (Object
            [(''success'', Atom (Bool True)),
             (''message'', Atom (Str msg_AccountCreated)),
             (''userId'', Integer (nextId (readUsers f)))]),
       Parses
         \<lparr>users = users (readUsers f) @
            [\<lparr>user_id = nextId (readUsers f),
              firstName = toJSON (fieldOf b ''firstName''),
              lastName = toJSON (fieldOf b ''lastName''),
              email = toJSON (fieldOf b ''email''),
              phone = toJSON (if truthy (fieldOf b ''phone'') then fieldOf b ''phone'' else Str []),
              password = Str h,
              preferences = Arr [],
              dietaryRestrictions = Arr [],
              cuisineTypes = Arr [],
              priceRange = Str [],
              minRating = Num (u16 ''3''),
              hasPreferences = Bool False,
              createdAt = Str (now E)\<rparr>],
          nextId = add_one (nextId (readUsers f))\<rparr>)"
      by blast
    let ?u = "\<lparr>user_id = nextId (readUsers f),
              firstName = toJSON (fieldOf b ''firstName''),
              lastName = toJSON (fieldOf b ''lastName''),
              email = toJSON (fieldOf b ''email''),
              phone = toJSON (if truthy (fieldOf b ''phone'') then fieldOf b ''phone'' else Str []),
              password = Str h,
              preferences = Arr [],
              dietaryRestrictions = Arr [],
              cuisineTypes = Arr [],
              priceRange = Str [],
              minRating = Num (u16 ''3''),
              hasPreferences = Bool False,
              createdAt = Str (now E)\<rparr>"
    have "user_id ?u = nextId (readUsers f)" "email ?u = toJSON (fieldOf b ''email'')"
      "toJSON_user ?u = ?u"
      by (simp_all add: toJSON_user_def toJSON_again nonFinite_def)
    moreover have "snd (createAccount B E b f) =
        Parses \<lparr>users = users (readUsers f) @ [?u], nextId = add_one (nextId (readUsers f))\<rparr>"
      by (simp add: eq)
    moreover have "succeeded (fst (createAccount B E b f))"
      by (simp add: eq succeeded_def)
    ultimately show ?thesis using fresh by blast
  qed
qed

text \<open>
  C6. A call of \<open>createAccount\<close> that does not succeed leaves the file as it was. A
  request with names and an e-mail the pattern rejects is answered with the invalid
  e-mail error and creates nothing. After a successful signup with an e-mail, a second
  request with the same e-mail that passes the first four rules is answered with the
  error of a taken e-mail, the file (so \<open>nextId\<close> too) is as the first signup left it,
  and the store holds exactly one record with that e-mail.
\<close>

theorem createAccount_failure_keeps_file:
  "(\<not> succeeded (fst (createAccount B E b f)) \<longrightarrow> snd (createAccount B E b f) = f) \<and>
   (truthy (fieldOf b ''firstName'') \<and> truthy (fieldOf b ''lastName'') \<and>
    \<not> validateEmail (fieldOf b ''email'') \<longrightarrow>
      createAccount B E b f = (failure 400 msg_InvalidEmail, f)) \<and>
   (succeeded (fst (createAccount B E b f)) \<and> fieldOf b ''email'' = Str e \<and>
    truthy (fieldOf b2 ''firstName'') \<and> truthy (fieldOf b2 ''lastName'') \<and>
    fieldOf b2 ''email'' = Str e \<and> fieldOf b2 ''password'' = Str p \<and> 8 \<le> length p \<and>
    fieldOf b2 ''confirmPassword'' = Str p \<longrightarrow>
      createAccount B2 E2 b2 (snd (createAccount B E b f)) =
        (failure 400 msg_EmailTaken, snd (createAccount B E b f)) \<and>
      length (filter (\<lambda>u. email u = Str e) (users (readUsers (snd (createAccount B E b f))))) = 1)"
proof -
  let ?f1 = "snd (createAccount B E b f)"
  have unchanged: "\<not> succeeded (fst (createAccount B E b f)) \<longrightarrow> ?f1 = f"
    using createAccount_appends [of B E b f] by blast
  have invalid: "truthy (fieldOf b ''firstName'') \<and> truthy (fieldOf b ''lastName'') \<and>
      \<not> validateEmail (fieldOf b ''email'') \<longrightarrow>
      createAccount B E b f = (failure 400 msg_InvalidEmail, f)"
    by (simp add: createAccount_def)
  have twice: "succeeded (fst (createAccount B E b f)) \<and> fieldOf b ''email'' = Str e \<and>
      truthy (fieldOf b2 ''firstName'') \<and> truthy (fieldOf b2 ''lastName'') \<and>
      fieldOf b2 ''email'' = Str e \<and> fieldOf b2 ''password'' = Str p \<and> 8 \<le> length p \<and>
      fieldOf b2 ''confirmPassword'' = Str p \<longrightarrow>
      createAccount B2 E2 b2 ?f1 = (failure 400 msg_EmailTaken, ?f1) \<and>
      length (filter (\<lambda>u. email u = Str e) (users (readUsers ?f1))) = 1"
  proof
    assume a: "succeeded (fst (createAccount B E b f)) \<and> fieldOf b ''email'' = Str e \<and>
      truthy (fieldOf b2 ''firstName'') \<and> truthy (fieldOf b2 ''lastName'') \<and>
      fieldOf b2 ''email'' = Str e \<and> fieldOf b2 ''password'' = Str p \<and> 8 \<le> length p \<and>
      fieldOf b2 ''confirmPassword'' = Str p"
    from a have s: "succeeded (fst (createAccount B E b f))"
      and e: "fieldOf b ''email'' = Str e" by simp_all
    from s createAccount_appends [of B E b f] obtain u
      where fresh': "\<not> list_ex (\<lambda>u. strict_eq (email u) (fieldOf b ''email'')) (users (readUsers f))"
        and f1: "?f1 =
          Parses \<lparr>users = users (readUsers f) @ [u], nextId = add_one (nextId (readUsers f))\<rparr>"
        and u': "email u = toJSON (fieldOf b ''email'')"
        and json: "toJSON_user u = u"
      by blast
    from fresh' e have fresh: "\<not> list_ex (\<lambda>u. strict_eq (email u) (Str e)) (users (readUsers f))"
      by simp
    from u' e have u: "email u = Str e" by simp
    have r1: "readUsers ?f1 =
        \<lparr>users = users (readUsers f) @ [u], nextId = add_one (nextId (readUsers f))\<rparr>"
      unfolding f1 readUsers_Parses toJSON_store_append json ..
    from fresh have "Str e \<notin> email ` set (users (readUsers f))"
      by (simp add: email_taken_iff)
    then have none: "filter (\<lambda>u. email u = Str e) (users (readUsers f)) = []"
      by (force simp: filter_empty_conv)
    have valid: "validateEmail (Str e)"
      using a by (auto simp: createAccount_def not_succeeded_failure split: if_splits)
    have ne: "e \<noteq> []"
      using a by (auto simp: createAccount_def not_succeeded_failure split: if_splits)
    have p: "p \<noteq> []" using a by auto
    have taken: "list_ex (\<lambda>u. strict_eq (email u) (Str e)) (users (readUsers ?f1))"
      unfolding r1 using u by simp
    have "createAccount B2 E2 b2 ?f1 = (failure 400 msg_EmailTaken, ?f1)"
      using a valid ne p taken by (simp add: createAccount_def less_than_def Let_def)
    moreover have "length (filter (\<lambda>u. email u = Str e) (users (readUsers ?f1))) = 1"
      unfolding r1 using u none by simp
    ultimately show "createAccount B2 E2 b2 ?f1 = (failure 400 msg_EmailTaken, ?f1) \<and>
      length (filter (\<lambda>u. email u = Str e) (users (readUsers ?f1))) = 1" ..
  qed
  from unchanged invalid twice show ?thesis by (intro conjI)
qed






section \<open>Loading\<close>

lemma handlers_read_only:
  "fst (createAccount B E b f) = fst (createAccount B E b (Parses (readUsers f)))"
  "fst (login B b f) = fst (login B b (Parses (readUsers f)))"
  "fst (updatePreferences b f) = fst (updatePreferences b (Parses (readUsers f)))"
  "fst (getUser ident f) = fst (getUser ident (Parses (readUsers f)))"
proof -
  have r: "readUsers (Parses (readUsers f)) = readUsers f"
    by (simp add: readUsers_Parses readUsers_json)
  show "fst (createAccount B E b f) = fst (createAccount B E b (Parses (readUsers f)))"
    unfolding createAccount_def r
    by (simp add: Let_def split: option.splits)
  show "fst (login B b f) = fst (login B b (Parses (readUsers f)))"
    unfolding login_def r
    by (simp add: Let_def split: option.splits bool.splits)
  show "fst (updatePreferences b f) = fst (updatePreferences b (Parses (readUsers f)))"
    unfolding updatePreferences_def r
    by (simp add: Let_def split: option.splits)
  show "fst (getUser ident f) = fst (getUser ident (Parses (readUsers f)))"
    unfolding getUser_def r
    by (simp add: Let_def split: option.splits)
qed

text \<open>
  C8, as amended. \<open>readUsers\<close> returns what the text of the file gives back when the
  file is there and parses, so the store last written. When the file is missing or does
  not parse it returns the empty store \<open>{users: [], nextId: 1}\<close> in memory, raises
  nothing, and writes nothing: \<open>login\<close> and \<open>getUser\<close> leave a missing file missing and an
  unparseable file as it is, and every handler answers as it does on the empty store.
  The empty store is written to the file by \<open>initializeUsersFile\<close> alone, at the start of
  the server and only where no file exists; a file that exists, parseable or not, it
  leaves as it is.
\<close>

theorem load_falls_back:
  "readUsers (writeUsers data f) = toJSON_store data \<and>
   readUsers Absent = \<lparr>users = [], nextId = 1\<rparr> \<and>
   readUsers (Unparseable t) = \<lparr>users = [], nextId = 1\<rparr> \<and>
   login B b Absent = (fst (login B b (Parses \<lparr>users = [], nextId = 1\<rparr>)), Absent) \<and>
   login B b (Unparseable t) =
     (fst (login B b (Parses \<lparr>users = [], nextId = 1\<rparr>)), Unparseable t) \<and>
   getUser ident Absent = (failure 404 msg_UserNotFound, Absent) \<and>
   getUser ident (Unparseable t) = (failure 404 msg_UserNotFound, Unparseable t) \<and>
   fst (createAccount B E b Absent) =
     fst (createAccount B E b (Parses \<lparr>users = [], nextId = 1\<rparr>)) \<and>
   fst (createAccount B E b (Unparseable t)) =
     fst (createAccount B E b (Parses \<lparr>users = [], nextId = 1\<rparr>)) \<and>
   fst (updatePreferences b Absent) =
     fst (updatePreferences b (Parses \<lparr>users = [], nextId = 1\<rparr>)) \<and>
   fst (updatePreferences b (Unparseable t)) =
     fst (updatePreferences b (Parses \<lparr>users = [], nextId = 1\<rparr>)) \<and>
   initializeUsersFile Absent = writeUsers \<lparr>users = [], nextId = 1\<rparr> Absent \<and>
   readUsers (initializeUsersFile Absent) = \<lparr>users = [], nextId = 1\<rparr> \<and>
   initializeUsersFile (Unparseable t) = Unparseable t \<and>
   initializeUsersFile (Parses S) = Parses S"
proof -
  have a: "readUsers Absent = \<lparr>users = [], nextId = 1\<rparr>"
    and u: "readUsers (Unparseable t) = \<lparr>users = [], nextId = 1\<rparr>"
    by (simp_all add: readUsers_def)
  have w: "readUsers (writeUsers data f) = toJSON_store data"
    by (simp add: writeUsers_def readUsers_Parses toJSON_store_again)
  have l: "login B b Absent = (fst (login B b (Parses \<lparr>users = [], nextId = 1\<rparr>)), Absent)"
    "login B b (Unparseable t) =
      (fst (login B b (Parses \<lparr>users = [], nextId = 1\<rparr>)), Unparseable t)"
    using handlers_read_only(2) [of B b Absent] handlers_read_only(2) [of B b "Unparseable t"]
      login_file [of B b Absent] login_file [of B b "Unparseable t"]
    by (simp_all add: a u prod_eq_iff)
  have g: "getUser ident Absent = (failure 404 msg_UserNotFound, Absent)"
    "getUser ident (Unparseable t) = (failure 404 msg_UserNotFound, Unparseable t)"
    by (simp_all add: getUser_def a u)
  have c: "fst (createAccount B E b Absent) =
      fst (createAccount B E b (Parses \<lparr>users = [], nextId = 1\<rparr>))"
    "fst (createAccount B E b (Unparseable t)) =
      fst (createAccount B E b (Parses \<lparr>users = [], nextId = 1\<rparr>))"
    using handlers_read_only(1) [of B E b Absent] handlers_read_only(1) [of B E b "Unparseable t"]
    by (simp_all add: a u)
  have p: "fst (updatePreferences b Absent) =
      fst (updatePreferences b (Parses \<lparr>users = [], nextId = 1\<rparr>))"
    "fst (updatePreferences b (Unparseable t)) =
      fst (updatePreferences b (Parses \<lparr>users = [], nextId = 1\<rparr>))"
    using handlers_read_only(3) [of b Absent] handlers_read_only(3) [of b "Unparseable t"]
    by (simp_all add: a u)
  have i: "initializeUsersFile Absent = writeUsers \<lparr>users = [], nextId = 1\<rparr> Absent"
    "readUsers (initializeUsersFile Absent) = \<lparr>users = [], nextId = 1\<rparr>"
    "initializeUsersFile (Unparseable t) = Unparseable t"
    "initializeUsersFile (Parses S) = Parses S"
    by (simp_all add: initializeUsersFile_def initialData_def writeUsers_def readUsers_def
        toJSON_store_def)
  from a u w l g c p i show ?thesis by (intro conjI)
qed

section \<open>The scenario, evaluated\<close>

lemma read_initial: "readUsers (Parses initialData) = initialData"
  by (simp add: scenario_defs)

lemma read_empty:
  "readUsers (Parses \<lparr>users = [], nextId = 1\<rparr>) = \<lparr>users = [], nextId = 1\<rparr>"
  by (simp add: scenario_defs)

lemma read_ana: "readUsers ana_file = \<lparr>users = [ana], nextId = 2\<rparr>"
  by (simp add: scenario_defs)

lemma ana_created:
  "createAccount sample_bcrypt sample_env ana_signup (Parses initialData) =
     (Reply 201
        (Object
           [(''success'', Atom (Bool True)),
            (''message'', Atom (Str msg_AccountCreated)),
            (''userId'', Integer 1)]),
      ana_file)"
  by (simp add: createAccount_def scenario_defs)

lemma ana_logged_in:
  "login sample_bcrypt ana_login ana_file =
     (Reply 200
        (Object
           [(''success'', Atom (Bool True)),
            (''message'', Atom (Str msg_LoggedIn)),
            (''user'',
             Object
               [(''id'', Integer 1),
                (''firstName'', Atom (Str (u16 ''Ana''))),
                (''lastName'', Atom (Str (u16 ''Lee''))),
                (''email'', Atom (Str (u16 ''ana@x.com''))),
                (''hasPreferences'', Atom (Bool False))])]),
      ana_file)"
  by (simp add: login_def scenario_defs)

lemma email_shape_ana: "email_shape (u16 ''ana@x.com'')"
  unfolding validateEmail_Str [symmetric] by (simp add: scenario_defs)

lemma first_failing_ana: "first_failing ana_signup initialData = None"
  using email_shape_ana by (simp add: first_failing_def scenario_defs)

theorem createAccount_rules_witness:
  "textual (fieldOf ana_signup ''firstName'') \<and> textual (fieldOf ana_signup ''lastName'') \<and>
   textual (fieldOf ana_signup ''email'') \<and> textual (fieldOf ana_signup ''password'') \<and>
   first_failing ana_signup (readUsers (Parses initialData)) = None \<and>
   fst (createAccount sample_bcrypt sample_env ana_signup (Parses initialData)) =
     Reply 201
       (Object
          [(''success'', Atom (Bool True)),
           (''message'', Atom (Str msg_AccountCreated)),
           (''userId'', Integer 1)]) \<and>
   succeeded (fst (createAccount sample_bcrypt sample_env ana_signup (Parses initialData)))"
proof -
  have t: "textual (fieldOf ana_signup ''firstName'')" "textual (fieldOf ana_signup ''lastName'')"
    "textual (fieldOf ana_signup ''email'')" "textual (fieldOf ana_signup ''password'')"
    by (simp_all add: scenario_defs)
  have n: "first_failing ana_signup (readUsers (Parses initialData)) = None"
    using first_failing_ana by (simp add: read_initial)
  from createAccount_rules [OF t, of sample_bcrypt sample_env "Parses initialData"] t n
  show ?thesis by (simp add: read_empty initialData_def succeeded_def)
qed

text \<open>
  C1 as the specification states it asks for names that are non-empty after trimming.
  A first name of two spaces trims to the empty string, and the account is created.
\<close>

theorem createAccount_blank_name_accepted:
  "trim (u16 ''  '') = [] \<and>
   createAccount sample_bcrypt sample_env (ana_signup(''firstName'' \<mapsto> Str (u16 ''  '')))
       (Parses initialData) =
     (Reply 201
        (Object
           [(''success'', Atom (Bool True)),
            (''message'', Atom (Str msg_AccountCreated)),
            (''userId'', Integer 1)]),
      Parses \<lparr>users = [ana\<lparr>firstName := Str (u16 ''  '')\<rparr>], nextId = 2\<rparr>)"
  by (simp add: createAccount_def trim_def scenario_defs)



lemma ana_updated:
  "updatePreferences ana_preferences ana_file =
     (Reply 200
        (Object
           [(''success'', Atom (Bool True)),
            (''message'', Atom (Str msg_PreferencesUpdated)),
            (''user'',
             Object
               (userObject
                  (ana\<lparr>preferences := Arr [Str (u16 ''vegan'')],
                       dietaryRestrictions := Arr [Str (u16 ''gluten-free'')],
                       cuisineTypes := Arr [Str (u16 ''italian'')],
                       priceRange := Str (u16 ''$$''),
                       minRating := Num (u16 ''4''),
                       hasPreferences := Bool True\<rparr>)))]),
      Parses
        \<lparr>users =
           [ana\<lparr>preferences := Arr [Str (u16 ''vegan'')],
                dietaryRestrictions := Arr [Str (u16 ''gluten-free'')],
                cuisineTypes := Arr [Str (u16 ''italian'')],
                priceRange := Str (u16 ''$$''),
                minRating := Num (u16 ''4''),
                hasPreferences := Bool True\<rparr>],
         nextId = 2\<rparr>)"
  by (simp add: updatePreferences_def scenario_defs)



theorem updatePreferences_frame_witness:
  "truthy (fieldOf ana_preferences ''userId'') \<and>
   parseInt (fieldOf ana_preferences ''userId'') = Some 1 \<and>
   1 \<in> user_id ` set (users (readUsers ana_file)) \<and>
   map email (users (readUsers (snd (updatePreferences ana_preferences ana_file)))) =
     [Str (u16 ''ana@x.com'')] \<and>
   map password (users (readUsers (snd (updatePreferences ana_preferences ana_file)))) =
     [Str (u16 ''$pass1234'')] \<and>
   nextId (readUsers (snd (updatePreferences ana_preferences ana_file))) = 2"
proof -
  have a: "truthy (fieldOf ana_preferences ''userId'')"
    "parseInt (fieldOf ana_preferences ''userId'') = Some 1"
    "1 \<in> user_id ` set (users (readUsers ana_file))"
    by (simp_all add: read_ana) (simp_all add: scenario_defs)
  from updatePreferences_frame [OF a] obtain i S'
    where i: "i < length (users (readUsers ana_file))"
      and f': "snd (updatePreferences ana_preferences ana_file) = Parses S'"
      and n: "nextId S' = nextId (readUsers ana_file)"
      and l: "length (users S') = length (users (readUsers ana_file))"
      and e: "email (users S' ! i) = email (users (readUsers ana_file) ! i)"
      and p: "password (users S' ! i) = password (users (readUsers ana_file) ! i)"
    by blast
  from i have i0: "i = 0" by (simp add: read_ana)
  from l obtain x where x: "users S' = [x]"
    by (cases "users S'") (simp_all add: read_ana)
  from e p have "email x = Str (u16 ''ana@x.com'')" "password x = Str (u16 ''$pass1234'')"
    by (simp_all add: i0 x read_ana ana_def)
  with n x have "map email (users (readUsers (Parses S'))) = [Str (u16 ''ana@x.com'')] \<and>
      map password (users (readUsers (Parses S'))) = [Str (u16 ''$pass1234'')] \<and>
      nextId (readUsers (Parses S')) = 2"
    by (simp add: readUsers_Parses toJSON_store_def toJSON_user_def read_ana)
  with a f' show ?thesis by simp
qed

text \<open>
  C4. A login that fails for an e-mail of the store and a login that fails for an
  e-mail that is not there are to get the same answer. They do not when the password is
  a number: for the registered e-mail \<open>bcrypt.compareSync\<close> throws and the handler does not
  answer (Express answers 500 for it), for the other e-mail the answer is 401. The two
  differ, which tells whether the e-mail is registered.
\<close>

theorem login_reveals_email:
  "login sample_bcrypt number_for_ana ana_file = (Uncaught, ana_file) \<and>
   login sample_bcrypt number_for_bob ana_file = (failure 401 msg_InvalidCredentials, ana_file)"
proof -
  have known: "login sample_bcrypt number_for_ana ana_file = (Uncaught, ana_file)"
    by (rule login_throws_for_known [where u = ana])
      (simp_all add: read_ana, simp_all add: number_for_ana_def fieldOf_def ana_def)
  have unknown: "login sample_bcrypt number_for_bob ana_file =
      (failure 401 msg_InvalidCredentials, ana_file)"
    by (rule login_401_for_unknown)
      (simp_all add: read_ana, simp_all add: number_for_bob_def fieldOf_def ana_def)
  from known unknown show ?thesis ..
qed

theorem login_reveals_email_witness:
  "fst (login sample_bcrypt number_for_ana ana_file) \<noteq>
     fst (login sample_bcrypt number_for_bob ana_file)"
  using login_reveals_email by (simp add: failure_Reply)

theorem responses_hide_password_witness:
  "succeeded (fst (login sample_bcrypt ana_login ana_file)) \<and>
   succeeded (fst (getUser (u16 ''1'') ana_file)) \<and>
   ''password'' \<notin> names (fst (login sample_bcrypt ana_login ana_file)) \<and>
   ''password'' \<notin> names (fst (getUser (u16 ''1'') ana_file)) \<and>
   names (fst (login sample_bcrypt ana_login ana_file)) =
     {''success'', ''message'', ''user'', ''id'', ''firstName'', ''lastName'', ''email'',
      ''hasPreferences''}"
proof -
  have l: "succeeded (fst (login sample_bcrypt ana_login ana_file))"
    by (simp add: ana_logged_in succeeded_def)
  have g: "succeeded (fst (getUser (u16 ''1'') ana_file))"
    by (simp add: getUser_def read_ana) (simp add: scenario_defs)
  have n: "names (fst (login sample_bcrypt ana_login ana_file)) =
     {''success'', ''message'', ''user'', ''id'', ''firstName'', ''lastName'', ''email'',
      ''hasPreferences''}"
    by (auto simp: ana_logged_in)
  from responses_hide_password [of sample_bcrypt ana_login ana_file "u16 ''1''"] l g n
  show ?thesis by blast
qed

theorem createAccount_failure_keeps_file_witness:
  "succeeded (fst (createAccount sample_bcrypt sample_env ana_signup (Parses initialData))) \<and>
   createAccount sample_bcrypt sample_env ana_signup ana_file =
     (failure 400 msg_EmailTaken, ana_file) \<and>
   length (filter (\<lambda>u. email u = Str (u16 ''ana@x.com'')) (users (readUsers ana_file))) = 1 \<and>
   \<not> validateEmail (Str (u16 ''not-an-email'')) \<and>
   createAccount sample_bcrypt sample_env
       (ana_signup(''email'' \<mapsto> Str (u16 ''not-an-email''))) ana_file =
     (failure 400 msg_InvalidEmail, ana_file)"
proof -
  have s: "succeeded (fst (createAccount sample_bcrypt sample_env ana_signup (Parses initialData)))"
    by (simp add: ana_created succeeded_def)
  have f1: "snd (createAccount sample_bcrypt sample_env ana_signup (Parses initialData)) = ana_file"
    by (simp add: ana_created)
  have b: "fieldOf ana_signup ''email'' = Str (u16 ''ana@x.com'')"
    "truthy (fieldOf ana_signup ''firstName'')" "truthy (fieldOf ana_signup ''lastName'')"
    "fieldOf ana_signup ''password'' = Str (u16 ''pass1234'')"
    "8 \<le> length (u16 ''pass1234'')"
    "fieldOf ana_signup ''confirmPassword'' = Str (u16 ''pass1234'')"
    by (simp_all add: scenario_defs)
  have i: "\<not> validateEmail (Str (u16 ''not-an-email''))"
    by (simp add: scenario_defs)
  have c: "truthy (fieldOf (ana_signup(''email'' \<mapsto> Str (u16 ''not-an-email''))) ''firstName'')"
    "truthy (fieldOf (ana_signup(''email'' \<mapsto> Str (u16 ''not-an-email''))) ''lastName'')"
    "fieldOf (ana_signup(''email'' \<mapsto> Str (u16 ''not-an-email''))) ''email'' =
       Str (u16 ''not-an-email'')"
    by (simp_all add: scenario_defs)
  from createAccount_failure_keeps_file
    [of sample_bcrypt sample_env ana_signup "Parses initialData" "u16 ''ana@x.com''" ana_signup
      "u16 ''pass1234''" sample_bcrypt sample_env]
    s b
  have "createAccount sample_bcrypt sample_env ana_signup ana_file =
      (failure 400 msg_EmailTaken, ana_file) \<and>
    length (filter (\<lambda>u. email u = Str (u16 ''ana@x.com'')) (users (readUsers ana_file))) = 1"
    unfolding f1 by blast
  moreover from createAccount_failure_keeps_file
    [of sample_bcrypt sample_env "ana_signup(''email'' \<mapsto> Str (u16 ''not-an-email''))" ana_file]
    c i
  have "createAccount sample_bcrypt sample_env
       (ana_signup(''email'' \<mapsto> Str (u16 ''not-an-email''))) ana_file =
     (failure 400 msg_InvalidEmail, ana_file)"
    by simp
  ultimately show ?thesis using s i by blast
qed


text \<open>
  C8 as the specification states it has the load persist the empty store where no file
  exists. \<open>getUser\<close> loads: on a missing file it finds no user, and the file is still
  missing afterwards.
\<close>

theorem load_falls_back_witness:
  "readUsers (writeUsers \<lparr>users = [ana], nextId = 2\<rparr> Absent) = \<lparr>users = [ana], nextId = 2\<rparr> \<and>
   login sample_bcrypt ana_login Absent = (failure 401 msg_InvalidCredentials, Absent) \<and>
   login sample_bcrypt ana_login (Unparseable (u16 ''{'')) =
     (failure 401 msg_InvalidCredentials, Unparseable (u16 ''{'')) \<and>
   fst (createAccount sample_bcrypt sample_env ana_signup Absent) =
     Reply 201
       (Object
          [(''success'', Atom (Bool True)),
           (''message'', Atom (Str msg_AccountCreated)),
           (''userId'', Integer 1)]) \<and>
   readUsers (initializeUsersFile Absent) = \<lparr>users = [], nextId = 1\<rparr>"
proof -
  have e: "fst (login sample_bcrypt ana_login (Parses \<lparr>users = [], nextId = 1\<rparr>)) =
      failure 401 msg_InvalidCredentials"
    by (simp add: login_def read_empty) (simp add: scenario_defs)
  have c: "fst (createAccount sample_bcrypt sample_env ana_signup
        (Parses \<lparr>users = [], nextId = 1\<rparr>)) =
      Reply 201
        (Object
           [(''success'', Atom (Bool True)),
            (''message'', Atom (Str msg_AccountCreated)),
            (''userId'', Integer 1)])"
    using ana_created by (simp add: initialData_def)
  have j: "toJSON_store \<lparr>users = [ana], nextId = 2\<rparr> = \<lparr>users = [ana], nextId = 2\<rparr>"
    using read_ana by (simp add: ana_file_def readUsers_Parses)
  from load_falls_back
    [where data = "\<lparr>users = [ana], nextId = 2\<rparr>" and f = Absent and t = "u16 ''{''"
      and B = sample_bcrypt and b = ana_login]
    load_falls_back [where B = sample_bcrypt and E = sample_env and b = ana_signup]
    e c j
  show ?thesis by simp
qed

theorem load_does_not_persist:
  "getUser (u16 ''1'') Absent = (failure 404 msg_UserNotFound, Absent)"
  by (simp add: getUser_def readUsers_def)

text \<open>
  The boundary of the third rule: a password of seven code units is refused, and the
  one of the scenario, of eight, is accepted (\<open>ana_created\<close>).
\<close>

lemma seven_refused:
  "createAccount sample_bcrypt sample_env
       (ana_signup(''password'' \<mapsto> Str (u16 ''pass123''),
          ''confirmPassword'' \<mapsto> Str (u16 ''pass123'')))
       (Parses initialData) =
     (failure 400 msg_WeakPassword, Parses initialData)"
  by (simp add: createAccount_def scenario_defs)

text \<open>
  Outside the amended C1: a password that is a number has no length, passes the third
  and fourth checks when the confirmation is the same number, and the hashing throws.
\<close>

lemma numeric_password_throws:
  "createAccount sample_bcrypt sample_env
       (ana_signup(''password'' \<mapsto> Num (u16 ''12345678''),
          ''confirmPassword'' \<mapsto> Num (u16 ''12345678'')))
       (Parses initialData) =
     (Uncaught, Parses initialData)"
  by (simp add: createAccount_def scenario_defs)

text \<open>The last step of the scenario: the record as \<open>getUser\<close> returns it after the update.\<close>

lemma ana_fetched:
  "getUser (u16 ''1'') (snd (updatePreferences ana_preferences ana_file)) =
     (Reply 200
        (Object
           [(''success'', Atom (Bool True)),
            (''user'',
             Object
               [(''id'', Integer 1),
                (''firstName'', Atom (Str (u16 ''Ana''))),
                (''lastName'', Atom (Str (u16 ''Lee''))),
                (''email'', Atom (Str (u16 ''ana@x.com''))),
                (''phone'', Atom (Str [])),
                (''preferences'', Atom (Arr [Str (u16 ''vegan'')])),
                (''dietaryRestrictions'', Atom (Arr [Str (u16 ''gluten-free'')])),
                (''cuisineTypes'', Atom (Arr [Str (u16 ''italian'')])),
                (''priceRange'', Atom (Str (u16 ''$$''))),
                (''minRating'', Atom (Num (u16 ''4''))),
                (''hasPreferences'', Atom (Bool True)),
                (''createdAt'', Atom (Str (u16 ''2026-01-01T00:00:00.000Z'')))])]),
      snd (updatePreferences ana_preferences ana_file))"
  unfolding ana_updated snd_conv by (simp add: getUser_def scenario_defs)

end
